theory Spec2Isabelle
  imports Complex_Main "HOL-Library.Multiset" "HOL-Library.Word" "HOL-Library.Log_Nat"
begin

section \<open>Python values\<close>

text \<open>
  The program is \<^verbatim>\<open>src/telethon_client.py\<close>. Its strategies are the records of a JSON
  document, so a strategy, its filters and every value in them is a JSON value as Python's
  \<^verbatim>\<open>json.load\<close> returns it. An object is an association list; \<^verbatim>\<open>dict.get\<close> is the
  lookup of the first pair with the key. A text is the list of the bytes of its UTF-8
  form, with the ASCII classes for white space, digits and letters. A finite Python float
  is its exact value as a real number; the arithmetic on floats and the conversions to a
  float round to binary64 (section \<open>Binary64 floats\<close>). The number that \<^verbatim>\<open>_parse_number\<close>
  reads from a text is kept as the exact value of its decimal digits, which stands for the
  float nearest to it. The leading underscore of a private Python name is dropped
  (\<^verbatim>\<open>_belongs_to\<close> is \<open>belongs_to\<close>).
\<close>

datatype json =
    JNull
  | JBool bool
  | JInt int
  | JFloat real
  | JStr string
  | JArr "json list"
  | JObj "(string \<times> json) list"

datatype py_error = TypeError | ValueError | AttributeError | KeyError | OverflowError

text \<open>Python's truth value of a JSON value (\<^verbatim>\<open>not v\<close>, \<^verbatim>\<open>if v\<close>, \<^verbatim>\<open>v or d\<close>).\<close>

fun truthy :: "json \<Rightarrow> bool" where
  "truthy JNull = False"
| "truthy (JBool b) = b"
| "truthy (JInt n) = (n \<noteq> 0)"
| "truthy (JFloat r) = (r \<noteq> 0)"
| "truthy (JStr s) = (s \<noteq> [])"
| "truthy (JArr xs) = (xs \<noteq> [])"
| "truthy (JObj kvs) = (kvs \<noteq> [])"

text \<open>\<^verbatim>\<open>d.get(k)\<close> on a value: a dict answers, anything else has no \<^verbatim>\<open>get\<close>.\<close>

fun py_get :: "json \<Rightarrow> string \<Rightarrow> py_error + json" where
  "py_get (JObj kvs) k = Inr (case map_of kvs k of None \<Rightarrow> JNull | Some v \<Rightarrow> v)"
| "py_get _ k = Inl AttributeError"

subsection \<open>Characters and white space\<close>

definition is_space :: "char \<Rightarrow> bool" where
  "is_space c \<longleftrightarrow> c \<in> set [CHR '' '', CHR 0x09, CHR 0x0A, CHR 0x0B, CHR 0x0C, CHR 0x0D,
                            CHR 0x1C, CHR 0x1D, CHR 0x1E, CHR 0x1F]"

definition is_digit :: "char \<Rightarrow> bool" where
  "is_digit c \<longleftrightarrow> c \<in> set ''0123456789''"

definition digit_val :: "char \<Rightarrow> nat" where
  "digit_val c = of_char c - 48"

definition strip :: "string \<Rightarrow> string" where
  "strip s = rev (dropWhile is_space (rev (dropWhile is_space s)))"

text \<open>The value of a digit string read in base ten, most significant digit first.\<close>

definition digits_value :: "string \<Rightarrow> nat" where
  "digits_value ds = foldl (\<lambda>acc c. 10 * acc + digit_val c) 0 ds"

subsection \<open>The built-in \<^verbatim>\<open>int\<close>\<close>

text \<open>
  \<^verbatim>\<open>int(s)\<close> on a string strips white space, takes one optional sign and then digits, where
  single underscores may stand between digits; anything else raises ValueError.
\<close>

fun int_body_ok :: "string \<Rightarrow> bool" where
  "int_body_ok [] = False"
| "int_body_ok [c] = is_digit c"
| "int_body_ok (c # d # cs) =
     (is_digit c \<and> (if d = CHR ''_'' then int_body_ok cs else int_body_ok (d # cs)))"

definition py_int_str :: "string \<Rightarrow> py_error + int" where
  "py_int_str s =
     (let t = strip s;
          neg = (t \<noteq> [] \<and> hd t = CHR ''-'');
          body = (if t \<noteq> [] \<and> (hd t = CHR ''-'' \<or> hd t = CHR ''+'') then tl t else t)
      in if int_body_ok body
         then Inr ((if neg then -1 else 1) *
                   int (digits_value (filter (\<lambda>c. c \<noteq> CHR ''_'') body)))
         else Inl ValueError)"

text \<open>\<^verbatim>\<open>int(x)\<close> truncates a float toward zero.\<close>

definition trunc :: "real \<Rightarrow> int" where
  "trunc r = (if 0 \<le> r then \<lfloor>r\<rfloor> else - \<lfloor>- r\<rfloor>)"

fun py_int :: "json \<Rightarrow> py_error + int" where
  "py_int JNull = Inl TypeError"
| "py_int (JBool b) = Inr (if b then 1 else 0)"
| "py_int (JInt n) = Inr n"
| "py_int (JFloat r) = Inr (trunc r)"
| "py_int (JStr s) = py_int_str s"
| "py_int (JArr xs) = Inl TypeError"
| "py_int (JObj kvs) = Inl TypeError"

section \<open>Ownership\<close>

text \<open>
  \<^verbatim>\<open>_belongs_to(strategy, owner_id)\<close>. The body of the \<^verbatim>\<open>try\<close> is \<open>belongs_to_body\<close>,
  with every exception it can raise as an \<open>Inl\<close>; the \<^verbatim>\<open>except Exception\<close> clause
  turns each of them into \<^verbatim>\<open>True\<close>. The requesting owner is \<^verbatim>\<open>int | None\<close>;
  \<^verbatim>\<open>and\<close> does not evaluate \<^verbatim>\<open>int(sid)\<close> when the owner is \<^verbatim>\<open>None\<close>.
\<close>

definition belongs_to_body :: "json \<Rightarrow> int option \<Rightarrow> py_error + bool" where
  "belongs_to_body strategy owner_id =
     (case py_get strategy ''owner_id'' of
        Inl e \<Rightarrow> Inl e
      | Inr sid \<Rightarrow>
          if sid = JNull then Inr True
          else (case owner_id of
                  None \<Rightarrow> Inr False
                | Some oid \<Rightarrow>
                    (case py_int sid of Inl e \<Rightarrow> Inl e | Inr n \<Rightarrow> Inr (n = oid))))"

definition belongs_to :: "json \<Rightarrow> int option \<Rightarrow> bool" where
  "belongs_to strategy owner_id =
     (case belongs_to_body strategy owner_id of Inl e \<Rightarrow> True | Inr b \<Rightarrow> b)"

text \<open>The owner-scoped view: \<^verbatim>\<open>[s for s in items if _belongs_to(s, owner_id)]\<close>.\<close>

definition owned_by :: "json list \<Rightarrow> int option \<Rightarrow> json list" where
  "owned_by items owner_id = filter (\<lambda>s. belongs_to s owner_id) items"

section \<open>The label filter\<close>

text \<open>
  \<^verbatim>\<open>label_filter_passes(expected, detected)\<close>. The expected value is whatever the strategy
  holds under \<^verbatim>\<open>Label\<close> (\<open>JNull\<close> when the key is absent); the detected label is a string
  or \<^verbatim>\<open>None\<close>. The wildcard is the string \<^verbatim>\<open>Any\<close>.
\<close>

definition wildcard :: string where
  "wildcard = ''Any''"

definition py_eq_label :: "json \<Rightarrow> string option \<Rightarrow> bool" where
  "py_eq_label expected detected =
     (case detected of None \<Rightarrow> expected = JNull | Some l \<Rightarrow> expected = JStr l)"

definition label_filter_passes :: "json \<Rightarrow> string option \<Rightarrow> bool" where
  "label_filter_passes expected detected =
     (if \<not> truthy expected \<or> expected = JStr wildcard then True
      else py_eq_label expected detected)"

section \<open>Binary64 floats\<close>

text \<open>
  A Python float is an IEEE 754 binary64 number: a finite value, an infinity or NaN. A
  finite float is the real number it stands for (the two zeros are one value). The result
  of an arithmetic operation on floats, and of \<^verbatim>\<open>float\<close> on a text or on an integer, is
  the exact result rounded to the nearest float, a tie going to the float whose significand
  is even.
\<close>

datatype float64 = Finite real | PosInf | NegInf | NaN

text \<open>The nearest integer, a tie going to the even one.\<close>

definition round_half_even :: "real \<Rightarrow> int" where
  "round_half_even x =
     (let f = \<lfloor>x\<rfloor>; d = x - of_int f
      in if d < 1 / 2 then f else if 1 / 2 < d then f + 1 else if even f then f else f + 1)"

text \<open>The power of two with an integer exponent.\<close>

definition pow2 :: "int \<Rightarrow> real" where
  "pow2 e = (if 0 \<le> e then 2 ^ nat e else 1 / 2 ^ nat (- e))"

text \<open>
  For \<open>0 < x\<close>, \<open>binade x\<close> is the integer \<open>p\<close> with \<open>pow2 p \<le> x < pow2 (p + 1)\<close>. It is read
  from the number of binary digits (\<open>bitlen\<close>) of the integer part of \<open>x\<close>, or of \<open>1 / x\<close>
  when \<open>x\<close> is below one.
\<close>

definition binade :: "real \<Rightarrow> int" where
  "binade x =
     (if 1 \<le> x then bitlen \<lfloor>x\<rfloor> - 1
      else (let k = bitlen \<lfloor>1 / x\<rfloor> in if x * 2 ^ nat (k - 1) = 1 then 1 - k else - k))"

text \<open>
  The float nearest to \<open>0 < x\<close>. A float has a significand of 53 binary digits, so the
  floats of the binade \<open>p\<close> are the multiples of \<open>pow2 (p - 52)\<close>; below \<open>pow2 (- 1022)\<close> they
  are the multiples of \<open>pow2 (- 1074)\<close>. A result of \<open>2 ^ 1024\<close> or more, which takes an
  exponent \<open>e\<close> of 971 at least, is beyond the largest float and is the infinity.
\<close>

definition round_pos :: "real \<Rightarrow> float64" where
  "round_pos x =
     (let e = max (binade x - 52) (- 1074);
          y = of_int (round_half_even (x / pow2 e)) * pow2 e
      in if 971 \<le> e \<and> 2 ^ 1024 \<le> y then PosInf else Finite y)"

fun f64_neg :: "float64 \<Rightarrow> float64" where
  "f64_neg (Finite x) = Finite (- x)"
| "f64_neg PosInf = NegInf"
| "f64_neg NegInf = PosInf"
| "f64_neg NaN = NaN"

definition round_b64 :: "real \<Rightarrow> float64" where
  "round_b64 x =
     (if x = 0 then Finite 0 else if 0 < x then round_pos x else f64_neg (round_pos (- x)))"

text \<open>\<^verbatim>\<open>x + y\<close> on floats.\<close>

fun f64_add :: "float64 \<Rightarrow> float64 \<Rightarrow> float64" where
  "f64_add NaN y = NaN"
| "f64_add x NaN = NaN"
| "f64_add (Finite a) (Finite b) = round_b64 (a + b)"
| "f64_add PosInf NegInf = NaN"
| "f64_add NegInf PosInf = NaN"
| "f64_add PosInf y = PosInf"
| "f64_add NegInf y = NegInf"
| "f64_add (Finite a) y = y"

text \<open>
  \<^verbatim>\<open>x * c\<close> and \<^verbatim>\<open>x / c\<close> for a float \<open>x\<close> and a constant \<open>c\<close> that is a finite float above
  zero: an infinity and NaN stay what they are.
\<close>

fun f64_times :: "float64 \<Rightarrow> real \<Rightarrow> float64" where
  "f64_times (Finite a) c = round_b64 (a * c)"
| "f64_times x c = x"

fun f64_over :: "float64 \<Rightarrow> real \<Rightarrow> float64" where
  "f64_over (Finite a) c = round_b64 (a / c)"
| "f64_over x c = x"

text \<open>\<^verbatim>\<open>x < y\<close> and \<^verbatim>\<open>x <= y\<close> on floats: a comparison with NaN is false.\<close>

fun f64_less :: "float64 \<Rightarrow> float64 \<Rightarrow> bool" where
  "f64_less NaN y = False"
| "f64_less x NaN = False"
| "f64_less (Finite a) (Finite b) = (a < b)"
| "f64_less x NegInf = False"
| "f64_less PosInf y = False"
| "f64_less x y = True"

fun f64_le :: "float64 \<Rightarrow> float64 \<Rightarrow> bool" where
  "f64_le NaN y = False"
| "f64_le x NaN = False"
| "f64_le (Finite a) (Finite b) = (a \<le> b)"
| "f64_le NegInf y = True"
| "f64_le x PosInf = True"
| "f64_le x y = False"

text \<open>
  \<^verbatim>\<open>int(x)\<close> on a float truncates toward zero; it raises OverflowError for an infinity
  and ValueError for NaN.
\<close>

fun int_of_float :: "float64 \<Rightarrow> py_error + int" where
  "int_of_float (Finite r) = Inr (trunc r)"
| "int_of_float PosInf = Inl OverflowError"
| "int_of_float NegInf = Inl OverflowError"
| "int_of_float NaN = Inl ValueError"

section \<open>Numeric parsing\<close>

text \<open>
  \<^verbatim>\<open>s.replace(a, b)\<close> and \<^verbatim>\<open>s.replace(a, '')\<close> for a single character \<open>a\<close>.
\<close>

definition replace_char :: "char \<Rightarrow> char \<Rightarrow> string \<Rightarrow> string" where
  "replace_char a b s = map (\<lambda>c. if c = a then b else c) s"

definition remove_char :: "char \<Rightarrow> string \<Rightarrow> string" where
  "remove_char a s = filter (\<lambda>c. c \<noteq> a) s"

text \<open>The characters that \<^verbatim>\<open>re.sub(r"[^0-9.+-]", "", s)\<close> keeps.\<close>

definition num_char :: "char \<Rightarrow> bool" where
  "num_char c \<longleftrightarrow> is_digit c \<or> c = CHR ''.'' \<or> c = CHR ''+'' \<or> c = CHR ''-''"

text \<open>
  The built-in \<^verbatim>\<open>float\<close> on a string of digits, dots and signs: one optional sign, then
  digits with an optional dot and optional digits after it, or a dot followed by digits.
  \<open>None\<close> is the ValueError of every other string. (On such a string the rest of Python's
  float grammar, exponents, underscores and the words for infinity and NaN, cannot occur.)
\<close>

definition float_decimal :: "string \<Rightarrow> real option" where
  "float_decimal s =
     (let neg = (s \<noteq> [] \<and> hd s = CHR ''-'');
          body = (if s \<noteq> [] \<and> (hd s = CHR ''-'' \<or> hd s = CHR ''+'') then tl s else s);
          ip = takeWhile is_digit body;
          rest = dropWhile is_digit body;
          fp = (if rest = [] then [] else tl rest);
          v = real (digits_value ip) + real (digits_value fp) / 10 ^ length fp
      in if (rest = [] \<or> hd rest = CHR ''.'') \<and> list_all is_digit fp \<and> (ip \<noteq> [] \<or> fp \<noteq> [])
         then Some (if neg then - v else v)
         else None)"

text \<open>
  \<^verbatim>\<open>_parse_number(s)\<close>. The argument is a string or \<^verbatim>\<open>None\<close>; the only statement of the
  \<^verbatim>\<open>try\<close> that can raise is \<^verbatim>\<open>float(s)\<close>, and the \<^verbatim>\<open>except\<close> clause returns
  \<^verbatim>\<open>None\<close> for it.
\<close>

definition parse_number :: "string option \<Rightarrow> real option" where
  "parse_number so =
     (case so of
        None \<Rightarrow> None
      | Some s0 \<Rightarrow>
          (let s1 = strip s0 in
           if s1 = [] then None
           else
             (let s2 = remove_char (CHR '' '') s1;
                  s3 = (if count_list s2 (CHR '','') > 0 \<and> count_list s2 (CHR ''.'') = 0
                        then replace_char (CHR '','') (CHR ''.'') s2 else s2);
                  s4 = filter num_char s3
              in if s4 \<in> set ['''', ''+'', ''-'', ''.'', ''+.'', ''-.''] then None
                 else float_decimal s4)))"

text \<open>
  What \<open>parse_number\<close> does to the commas of a text before it filters the characters:
  they become dots when the text has a comma and no dot.
\<close>

definition comma_decimal :: "string \<Rightarrow> string" where
  "comma_decimal s = (if CHR '','' \<in> set s \<and> CHR ''.'' \<notin> set s
                      then replace_char (CHR '','') (CHR ''.'') s else s)"

section \<open>Range input of the strategy builder\<close>

text \<open>
  \<^verbatim>\<open>str.lower\<close>. A text is held as the bytes of its UTF-8 form. The capital letters of
  ASCII have 32 less than the small ones. The capital letters U+00C0 to U+00DE of Latin-1
  (without the sign U+00D7) are the byte C3 followed by a byte from 80 to 9E, and the small
  letter has 32 more in that byte. Letters beyond these are left as they are.
\<close>

definition to_lower :: "char \<Rightarrow> char" where
  "to_lower c =
     (let n = (of_char c :: nat) in if 65 \<le> n \<and> n \<le> 90 then char_of (n + 32) else c)"

definition latin1_upper :: "char \<Rightarrow> bool" where
  "latin1_upper d \<longleftrightarrow> (let n = (of_char d :: nat) in 128 \<le> n \<and> n \<le> 158 \<and> n \<noteq> 151)"

fun lower :: "string \<Rightarrow> string" where
  "lower [] = []"
| "lower [c] = [to_lower c]"
| "lower (c # d # s) =
     (if c = CHR 0xC3 \<and> latin1_upper d
      then c # char_of (of_char d + 32 :: nat) # lower s
      else to_lower c # lower (d # s))"

text \<open>
  \<^verbatim>\<open>t.replace(old, '-')\<close> for a text \<open>old\<close> that is not empty: from left to right, every
  occurrence of \<open>old\<close> that does not overlap the one before it.
\<close>

function replace_by_dash :: "string \<Rightarrow> string \<Rightarrow> string" where
  "replace_by_dash old [] = []"
| "replace_by_dash old (c # s) =
     (if take (length old) (c # s) = old
      then CHR ''-'' # replace_by_dash old (drop (length old - 1) s)
      else c # replace_by_dash old s)"
  by pat_completeness auto
termination
  by (relation "measure (\<lambda>(old, s). length s)") auto

text \<open>
  The two literals of \<^verbatim>\<open>_parse_range\<close> that are replaced by a hyphen, as the source file
  holds them: the characters U+201A, U+00C4, U+00EC and U+201A, U+00C4, U+00EE (an en dash
  and an em dash whose bytes were read in another encoding). The text was lowered before,
  so it holds no U+00C4.
\<close>

definition dash_literal_1 :: string where
  "dash_literal_1 = [CHR 0xE2, CHR 0x80, CHR 0x9A, CHR 0xC3, CHR 0x84, CHR 0xC3, CHR 0xAC]"

definition dash_literal_2 :: string where
  "dash_literal_2 = [CHR 0xE2, CHR 0x80, CHR 0x9A, CHR 0xC3, CHR 0x84, CHR 0xC3, CHR 0xAE]"

text \<open>
  \<^verbatim>\<open>re.split\<close> with a pattern \<^verbatim>\<open>\s*SEP\s*\<close>. \<open>sep r\<close> is the length of the separator
  \<^verbatim>\<open>SEP\<close> at the head of \<open>r\<close>, and 0 when there is none. The search goes from left to right:
  at a position the pattern matches iff \<^verbatim>\<open>SEP\<close> follows the white space that starts
  there (no separator starts with white space, so backtracking finds nothing more), and a
  match takes all the white space after the separator. \<open>cur\<close> is the current piece,
  reversed.
\<close>

definition sep_comma :: "string \<Rightarrow> nat" where
  "sep_comma r = (if r \<noteq> [] \<and> hd r = CHR '','' then 1 else 0)"

definition sep_dash_to :: "string \<Rightarrow> nat" where
  "sep_dash_to r = (if r \<noteq> [] \<and> hd r = CHR ''-'' then 1
                    else if take 2 r = ''to'' then 2 else 0)"

function re_split :: "(string \<Rightarrow> nat) \<Rightarrow> string \<Rightarrow> string \<Rightarrow> string list" where
  "re_split sep cur [] = [rev cur]"
| "re_split sep cur (c # cs) =
     (let r = dropWhile is_space (c # cs); n = sep r
      in if 0 < n then rev cur # re_split sep [] (dropWhile is_space (drop n r))
         else re_split sep (c # cur) cs)"
  by pat_completeness auto
termination
proof (relation "measure (\<lambda>(sep, cur, s). length s)")
  show "wf (measure (\<lambda>(sep, cur, s). length s))" by simp
next
  fix sep :: "string \<Rightarrow> nat" and cur c cs r n
  assume r: "r = dropWhile is_space (c # cs)" and n: "n = sep r" and pos: "0 < n"
  have "length (dropWhile is_space (drop n r)) \<le> length (drop n r)"
    by (rule length_dropWhile_le)
  also have "\<dots> \<le> length r - n" by simp
  also have "length r \<le> length (c # cs)" unfolding r by (rule length_dropWhile_le)
  finally have "length (dropWhile is_space (drop n r)) \<le> length (c # cs) - n"
    by (meson diff_le_mono order_trans)
  then show "((sep, [], dropWhile is_space (drop n r)), (sep, cur, c # cs))
             \<in> measure (\<lambda>(sep, cur, s). length s)"
    using pos by simp
next
  fix sep :: "string \<Rightarrow> nat" and cur c cs r n
  show "((sep, c # cur, cs), (sep, cur, c # cs)) \<in> measure (\<lambda>(sep, cur, s). length s)"
    by simp
qed

text \<open>
  \<^verbatim>\<open>re.findall(r'[+-]?[\d.,]+', t)\<close>: from left to right, a sign followed by a run of
  digits, dots and commas, or such a run alone.
\<close>

definition range_char :: "char \<Rightarrow> bool" where
  "range_char c \<longleftrightarrow> is_digit c \<or> c = CHR ''.'' \<or> c = CHR '',''"

definition is_sign :: "char \<Rightarrow> bool" where
  "is_sign c \<longleftrightarrow> c = CHR ''+'' \<or> c = CHR ''-''"

function findall_numbers :: "string \<Rightarrow> string list" where
  "findall_numbers [] = []"
| "findall_numbers (c # cs) =
     (if is_sign c \<and> cs \<noteq> [] \<and> range_char (hd cs)
      then (c # takeWhile range_char cs) # findall_numbers (dropWhile range_char cs)
      else if range_char c
      then (c # takeWhile range_char cs) # findall_numbers (dropWhile range_char cs)
      else findall_numbers cs)"
  by pat_completeness auto
termination
  by (relation "measure length") (auto simp: length_dropWhile_le less_Suc_eq_le)

text \<open>
  \<^verbatim>\<open>_parse_range(text)\<close>: the pair \<open>(lo, hi)\<close> stands for the dict
  \<^verbatim>\<open>{'from': lo, 'to': hi}\<close>.
\<close>

definition parse_range :: "string option \<Rightarrow> (real \<times> real) option" where
  "parse_range text =
     (let t = lower (strip (case text of None \<Rightarrow> [] | Some x \<Rightarrow> x)) in
      if t \<in> set ['''', ''skip'', ''none''] then None
      else
        (let t = replace_by_dash dash_literal_2 (replace_by_dash dash_literal_1 t);
             parts = re_split sep_comma [] t;
             parts2 = re_split sep_dash_to [] t;
             parts3 = findall_numbers t;
             ab = (if length parts = 2
                   then (parse_number (Some (parts ! 0)), parse_number (Some (parts ! 1)))
                   else if length parts2 = 2
                   then (parse_number (Some (parts2 ! 0)), parse_number (Some (parts2 ! 1)))
                   else if length parts3 = 2
                   then (parse_number (Some (parts3 ! 0)), parse_number (Some (parts3 ! 1)))
                   else (parse_number (Some t), parse_number (Some t)))
         in case ab of
              (Some a, Some b) \<Rightarrow> Some (if a \<le> b then (a, b) else (b, a))
            | _ \<Rightarrow> None))"

text \<open>\<^verbatim>\<open>d[k] = v\<close> on a dict: the value of an existing key is replaced, a new key is added.\<close>

fun dict_set :: "string \<Rightarrow> json \<Rightarrow> (string \<times> json) list \<Rightarrow> (string \<times> json) list" where
  "dict_set k v [] = [(k, v)]"
| "dict_set k v ((k', v') # kvs) =
     (if k' = k then (k, v) # kvs else (k', v') # dict_set k v kvs)"

text \<open>
  The free-text input of \<^verbatim>\<open>bot_conversation\<close> in a step \<^verbatim>\<open>edit_<key>\<close> of a draft whose
  group is not the order venue, for the four range keys. \<open>Inl\<close> is the prompt that is shown
  again for an input \<^verbatim>\<open>_parse_range\<close> does not accept, with the draft as it was; \<open>Inr\<close> is
  the draft's filters after \<^verbatim>\<open>filters[mapping[key]] = rng\<close>.
\<close>

definition range_mapping :: "(string \<times> string) list" where
  "range_mapping =
     [(''token_age'', ''Token Age (minutes)''),
      (''first_buy'', ''First Buy (%)''),
      (''balance'', ''Balance (SOL)''),
      (''tx'', ''Transactions (count)'')]"

definition range_dict :: "real \<times> real \<Rightarrow> json" where
  "range_dict r = JObj [(''from'', JFloat (fst r)), (''to'', JFloat (snd r))]"

definition edit_range_input ::
  "string \<Rightarrow> string \<Rightarrow> (string \<times> json) list \<Rightarrow> string + (string \<times> json) list" where
  "edit_range_input key text filters =
     (case map_of range_mapping key of
        None \<Rightarrow> Inr filters
      | Some name \<Rightarrow>
          (case parse_range (Some text) of
             None \<Rightarrow> Inl ''Invalid format. Use 'min,max'. Tap Back to cancel.''
           | Some rng \<Rightarrow> Inr (dict_set name (range_dict rng) filters)))"

text \<open>
  The invariant of a strategy's filters: every range that is present with two numeric
  bounds has \<open>from \<le> to\<close>.
\<close>

fun json_num :: "json \<Rightarrow> real option" where
  "json_num (JInt n) = Some (real_of_int n)"
| "json_num (JFloat r) = Some r"
| "json_num _ = None"

definition range_ordered :: "json \<Rightarrow> bool" where
  "range_ordered v =
     (case v of
        JObj kvs \<Rightarrow>
          (case (map_of kvs ''from'', map_of kvs ''to'') of
             (Some a, Some b) \<Rightarrow>
               (case (json_num a, json_num b) of
                  (Some x, Some y) \<Rightarrow> x \<le> y
                | _ \<Rightarrow> True)
           | _ \<Rightarrow> True)
      | _ \<Rightarrow> True)"

definition ranges_ordered :: "(string \<times> json) list \<Rightarrow> bool" where
  "ranges_ordered filters = list_all (\<lambda>kv. range_ordered (snd kv)) filters"

section \<open>Durations and the limit-order flow\<close>

subsection \<open>Duration parsing\<close>

definition unit_char :: "char \<Rightarrow> bool" where
  "unit_char c \<longleftrightarrow> c \<in> set ''smhd''"

text \<open>\<^verbatim>\<open>re.fullmatch(r"\d+(?:\.\d+)?", t)\<close>.\<close>

definition is_plain_number :: "string \<Rightarrow> bool" where
  "is_plain_number t =
     (let d1 = takeWhile is_digit t; r = dropWhile is_digit t
      in d1 \<noteq> [] \<and> (r = [] \<or> (hd r = CHR ''.'' \<and> tl r \<noteq> [] \<and> list_all is_digit (tl r))))"

text \<open>
  One match of \<^verbatim>\<open>(\d+(?:\.\d+)?)\s*([smhd])\<close> at the head of a text: the number's text,
  the unit and the rest of the text after the match. The digits and the fraction are
  taken greedily, and giving some of them back never lets the rest of the pattern match.
\<close>

definition match_duration :: "string \<Rightarrow> (string \<times> char \<times> string) option" where
  "match_duration s =
     (let d1 = takeWhile is_digit s; r1 = dropWhile is_digit s
      in if d1 = [] then None
         else
           (let frac = (r1 \<noteq> [] \<and> hd r1 = CHR ''.'' \<and> takeWhile is_digit (tl r1) \<noteq> []);
                num = (if frac then d1 @ CHR ''.'' # takeWhile is_digit (tl r1) else d1);
                r2 = (if frac then dropWhile is_digit (tl r1) else r1);
                r3 = dropWhile is_space r2
            in if r3 \<noteq> [] \<and> unit_char (hd r3) then Some (num, hd r3, tl r3) else None))"

text \<open>\<^verbatim>\<open>re.finditer\<close> with that pattern: the matches from left to right.\<close>

function finditer_durations :: "string \<Rightarrow> (string \<times> char) list" where
  "finditer_durations [] = []"
| "finditer_durations (c # cs) =
     (case match_duration (c # cs) of
        Some (num, u, rest) \<Rightarrow> (num, u) # finditer_durations rest
      | None \<Rightarrow> finditer_durations cs)"
  by pat_completeness auto
termination
proof (relation "measure length")
  show "wf (measure length)" by simp
next
  fix c cs x2 num y u rest
  assume m: "match_duration (c # cs) = Some x2" and x: "(num, y) = x2" and y: "(u, rest) = y"
  define s where "s = c # cs"
  define d1 where "d1 = takeWhile is_digit s"
  define r1 where "r1 = dropWhile is_digit s"
  define r2 where "r2 = (if r1 \<noteq> [] \<and> hd r1 = CHR ''.'' \<and> takeWhile is_digit (tl r1) \<noteq> []
                         then dropWhile is_digit (tl r1) else r1)"
  define r3 where "r3 = dropWhile is_space r2"
  have m': "match_duration s = Some (num, u, rest)"
    using m x y by (simp add: s_def)
  have d: "d1 \<noteq> []"
    using m' unfolding match_duration_def Let_def d1_def
    by (simp split: if_splits)
  have "length d1 + length r1 = length s"
    unfolding d1_def r1_def by (metis length_append takeWhile_dropWhile_id)
  with d have l1: "length r1 < length s"
    by (cases d1) simp_all
  have "length (dropWhile is_digit (tl r1)) \<le> length (tl r1)"
    by (rule length_dropWhile_le)
  moreover have "length (tl r1) \<le> length r1" by simp
  ultimately have "length (dropWhile is_digit (tl r1)) \<le> length r1"
    by (rule order_trans)
  then have l2: "length r2 \<le> length r1"
    unfolding r2_def
    by (cases "r1 \<noteq> [] \<and> hd r1 = CHR ''.'' \<and> takeWhile is_digit (tl r1) \<noteq> []") simp_all
  have l3: "length r3 \<le> length r2"
    unfolding r3_def by (rule length_dropWhile_le)
  have "rest = tl r3"
    using m' d unfolding match_duration_def Let_def
      d1_def [symmetric] r1_def [symmetric] r2_def [symmetric] r3_def [symmetric]
    by (simp split: if_splits)
  then have "length rest \<le> length r3" by simp
  with l1 l2 l3 have "length rest < length s" by linarith
  then show "(rest, c # cs) \<in> measure length" by (simp add: s_def)
next
  fix c cs
  show "(cs, c # cs) \<in> measure length" by simp
qed

text \<open>
  \<^verbatim>\<open>float(t)\<close> on a text of digits, dots and signs: the float nearest to its decimal
  value.
\<close>

definition float_of_text :: "string \<Rightarrow> float64 option" where
  "float_of_text s = map_option round_b64 (float_decimal s)"

text \<open>
  The body of the loop for one match, after \<^verbatim>\<open>v = float(m.group(1))\<close>: the statement
  \<^verbatim>\<open>total += ...\<close> of the unit, each operation rounded. The constants \<^verbatim>\<open>60.0\<close> and
  \<^verbatim>\<open>1440.0\<close> are floats.
\<close>

definition add_duration :: "float64 \<Rightarrow> float64 \<Rightarrow> char \<Rightarrow> float64" where
  "add_duration tot v u =
     (if u = CHR ''s'' then f64_add tot (f64_over v 60)
      else if u = CHR ''m'' then f64_add tot v
      else if u = CHR ''h'' then f64_add tot (f64_times v 60)
      else if u = CHR ''d'' then f64_add tot (f64_times v 1440)
      else tot)"

text \<open>
  The loop over the matches. \<^verbatim>\<open>float(m.group(1))\<close> stands outside any \<^verbatim>\<open>try\<close>, so a
  ValueError of it would leave the function.
\<close>

fun sum_durations :: "(string \<times> char) list \<Rightarrow> float64 \<Rightarrow> py_error + float64" where
  "sum_durations [] tot = Inr tot"
| "sum_durations ((num, u) # ms) tot =
     (case float_of_text num of
        None \<Rightarrow> Inl ValueError
      | Some v \<Rightarrow> sum_durations ms (add_duration tot v u))"

text \<open>
  \<^verbatim>\<open>_parse_duration_to_minutes(text)\<close>: \<open>Inr None\<close> is the result \<^verbatim>\<open>None\<close>, \<open>Inr (Some m)\<close> a
  float of minutes. \<^verbatim>\<open>total\<close> starts as \<^verbatim>\<open>0.0\<close>.
\<close>

definition parse_duration_to_minutes :: "string option \<Rightarrow> py_error + float64 option" where
  "parse_duration_to_minutes text =
     (case text of
        None \<Rightarrow> Inr None
      | Some x \<Rightarrow>
          (let t = lower (strip x) in
           if t = [] then Inr None
           else if is_plain_number t then Inr (float_of_text t)
           else
             (let ms = finditer_durations t in
              case sum_durations ms (Finite 0) of
                Inl e \<Rightarrow> Inl e
              | Inr tot \<Rightarrow>
                  if ms \<noteq> [] \<and> f64_less (Finite 0) tot then Inr (Some tot) else Inr None)))"

subsection \<open>The command sent to the order venue\<close>

text \<open>
  A formatted string is a list of pieces: literal text, and \<open>FloatStr r\<close> for the text that
  Python's \<^verbatim>\<open>str\<close> gives for the float nearest to \<open>r\<close>. \<open>show_int\<close> is \<^verbatim>\<open>str\<close> of an
  \<^verbatim>\<open>int\<close>.
\<close>

datatype piece = Lit string | FloatStr real

definition digit_char :: "nat \<Rightarrow> char" where
  "digit_char n = char_of (48 + n)"

function show_nat :: "nat \<Rightarrow> string" where
  "show_nat n = (if n < 10 then [digit_char n] else show_nat (n div 10) @ [digit_char (n mod 10)])"
  by pat_completeness auto
termination
  by (relation "measure id") auto

definition show_int :: "int \<Rightarrow> string" where
  "show_int i = (if i < 0 then CHR ''-'' # show_nat (nat (- i)) else show_nat (nat i))"

definition float_piece :: "real option \<Rightarrow> piece" where
  "float_piece v = (case v of None \<Rightarrow> Lit ''None'' | Some r \<Rightarrow> FloatStr r)"

definition str_piece :: "string option \<Rightarrow> piece" where
  "str_piece v = (case v of None \<Rightarrow> Lit ''None'' | Some s \<Rightarrow> Lit s)"

datatype action = Respond string | SendMessage string "piece list"

text \<open>
  \<^verbatim>\<open>_send_limit_to_trojan(token, amount, expiry, slippage, trigger)\<close>. The command is built
  before the \<^verbatim>\<open>try\<close>; \<^verbatim>\<open>int(expiry)\<close> truncates the float, and raises TypeError for
  \<^verbatim>\<open>None\<close> and OverflowError for an infinity. \<open>limit_command\<close> is the f-string, with the
  value of \<^verbatim>\<open>int(expiry)\<close> as its third argument. The result is the message handed to the
  send capability; a failure of the transport is logged there and changes nothing here.
\<close>

definition limit_command ::
  "string option \<Rightarrow> real option \<Rightarrow> int \<Rightarrow> real option \<Rightarrow> real option \<Rightarrow> piece list" where
  "limit_command token amount expiry_int slippage trigger =
     [Lit ''/limit token='', str_piece token,
      Lit '' amount='', float_piece amount,
      Lit '' slippage='', float_piece slippage,
      Lit '' trigger='', float_piece trigger,
      Lit '' expiry='', Lit (show_int expiry_int)]"

definition send_limit_to_trojan ::
  "string option \<Rightarrow> real option \<Rightarrow> float64 option \<Rightarrow> real option \<Rightarrow> real option
     \<Rightarrow> py_error + action list" where
  "send_limit_to_trojan token amount expiry slippage trigger =
     (case expiry of
        None \<Rightarrow> Inl TypeError
      | Some x \<Rightarrow>
          (case int_of_float x of
             Inl e \<Rightarrow> Inl e
           | Inr n \<Rightarrow>
               Inr [SendMessage ''solana_trojanbot''
                      (limit_command token amount n slippage trigger)]))"

subsection \<open>The conversation in the modes \<^verbatim>\<open>limit\<close> and \<^verbatim>\<open>limit_ad_hoc\<close>\<close>

text \<open>
  The state of a chat in one of the two limit modes. A field of the data that is \<open>None\<close>
  is a key that is absent or holds \<^verbatim>\<open>None\<close>: \<^verbatim>\<open>d.get(k)\<close> cannot tell them apart, and the
  ad-hoc mode, which reads with \<^verbatim>\<open>d[k]\<close>, never stores \<^verbatim>\<open>None\<close>. The mode \<^verbatim>\<open>limit\<close> is
  created with the keys \<^verbatim>\<open>token\<close> and \<^verbatim>\<open>strategy_name\<close>, so \<^verbatim>\<open>d.get('token', '')\<close> never
  takes its default there. The steps are the five that these modes are created with and
  move to.
\<close>

datatype limit_mode = Limit | LimitAdHoc

datatype limit_step = StepToken | StepAmount | StepExpiry | StepSlippage | StepTrigger

record limit_data =
  d_token :: "string option"
  d_strategy_name :: json
  d_amount :: "real option"
  d_expiry :: "float64 option"
  d_slippage :: "real option"
  d_trigger :: "real option"

record conv_state =
  cs_mode :: limit_mode
  cs_step :: limit_step
  cs_data :: limit_data

text \<open>
  The reply after the command, with the bytes that the source file holds after the word
  \<^verbatim>\<open>sent\<close>.
\<close>

definition limit_sent_reply :: string where
  "limit_sent_reply =
     ''LIMIT sent '' @ [CHR 0xE2, CHR 0x80, CHR 0x9A, CHR 0xC3, CHR 0xBA, CHR 0xC3, CHR 0x96]"

definition conversation_error :: "action list" where
  "conversation_error = [Respond ''Error. Type /new to restart wizard.'']"

text \<open>
  \<^verbatim>\<open>next((x for x in items if _belongs_to(x, sender) and x.get('name') == name), None)\<close>.
\<close>

fun find_strategy :: "json list \<Rightarrow> int option \<Rightarrow> json \<Rightarrow> py_error + json option" where
  "find_strategy [] sender name = Inr None"
| "find_strategy (x # xs) sender name =
     (if belongs_to x sender
      then (case py_get x ''name'' of
              Inl e \<Rightarrow> Inl e
            | Inr n \<Rightarrow> if n = name then Inr (Some x) else find_strategy xs sender name)
      else find_strategy xs sender name)"

text \<open>
  The call of \<^verbatim>\<open>_send_limit_to_trojan\<close> inside its \<^verbatim>\<open>try\<close>, followed by the removal of
  the chat's state. The ad-hoc mode reads the data with \<^verbatim>\<open>d[k]\<close>, a KeyError for an
  absent key.
\<close>

definition send_and_finish :: "limit_mode \<Rightarrow> limit_data \<Rightarrow> action list" where
  "send_and_finish m d =
     (let absent = (d_token d = None \<or> d_amount d = None \<or> d_expiry d = None \<or>
                    d_slippage d = None \<or> d_trigger d = None);
          r = (if m = LimitAdHoc \<and> absent then Inl KeyError
               else send_limit_to_trojan (d_token d) (d_amount d) (d_expiry d)
                      (d_slippage d) (d_trigger d))
      in case r of
           Inl e \<Rightarrow> [Respond ''Failed to send'']
         | Inr acts \<Rightarrow> acts @ [Respond limit_sent_reply])"

text \<open>
  One free-text input of \<^verbatim>\<open>bot_conversation\<close> from an authorized sender in a private
  chat whose state is in a limit mode: the state of the chat afterwards (\<open>None\<close> when it
  was removed) and what was sent. The text is stripped, and a text that starts with a
  slash is left to the command handlers. \<open>items\<close> is what \<^verbatim>\<open>load_strategies()\<close> returns
  and \<open>sender\<close> is \<^verbatim>\<open>event.sender_id\<close>.
\<close>

definition slash_command :: "string \<Rightarrow> bool" where
  "slash_command raw_text \<longleftrightarrow> strip raw_text \<noteq> [] \<and> hd (strip raw_text) = CHR ''/''"

definition limit_input ::
  "json list \<Rightarrow> int option \<Rightarrow> conv_state \<Rightarrow> string \<Rightarrow> conv_state option \<times> action list" where
  "limit_input items sender st raw_text =
     (let text = strip raw_text; d = cs_data st in
      if slash_command raw_text then (Some st, [])
      else
      case cs_step st of
        StepToken \<Rightarrow>
          (if cs_mode st = LimitAdHoc
           then (Some (st\<lparr>cs_data := d\<lparr>d_token := Some text\<rparr>, cs_step := StepAmount\<rparr>),
                 [Respond ''Amount (SOL):''])
           else (Some st, []))
      | StepAmount \<Rightarrow>
          (case parse_number (Some text) of
             None \<Rightarrow> (Some st, [Respond ''Invalid amount. Enter number.''])
           | Some v \<Rightarrow>
               (Some (st\<lparr>cs_data := d\<lparr>d_amount := Some v\<rparr>, cs_step := StepExpiry\<rparr>),
                [Respond ''Expiry (e.g., 45s, 30m, 2h, 1d):'']))
      | StepExpiry \<Rightarrow>
          (case parse_duration_to_minutes (Some text) of
             Inl e \<Rightarrow> (Some st, conversation_error)
           | Inr None \<Rightarrow>
               (Some st, [Respond ''Invalid expiry. Use formats like 45s, 30m, 2h, 1d.''])
           | Inr (Some v) \<Rightarrow>
               (Some (st\<lparr>cs_data := d\<lparr>d_expiry := Some v\<rparr>, cs_step := StepSlippage\<rparr>),
                [Respond ''Slippage %:'']))
      | StepSlippage \<Rightarrow>
          (case parse_number (Some text) of
             None \<Rightarrow> (Some st, [Respond ''Invalid slippage. Enter percent.''])
           | Some v \<Rightarrow>
               (Some (st\<lparr>cs_data := d\<lparr>d_slippage := Some v\<rparr>, cs_step := StepTrigger\<rparr>),
                [Respond ''Trigger Price (SOL):'']))
      | StepTrigger \<Rightarrow>
          (case parse_number (Some text) of
             None \<Rightarrow>
               (Some st,
                [Respond (if cs_mode st = Limit then ''Invalid trigger price. Enter number.''
                          else ''Invalid trigger. Enter number.'')])
           | Some v \<Rightarrow>
               (let d' = d\<lparr>d_trigger := Some v\<rparr> in
                if cs_mode st = LimitAdHoc then (None, send_and_finish LimitAdHoc d')
                else
                  (case find_strategy items sender (d_strategy_name d') of
                     Inl e \<Rightarrow> (Some (st\<lparr>cs_data := d'\<rparr>), conversation_error)
                   | Inr (Some s) \<Rightarrow>
                       if truthy s then (None, send_and_finish Limit d')
                       else (None, [Respond ''Strategy not found. Use /start''])
                   | Inr None \<Rightarrow> (None, [Respond ''Strategy not found. Use /start''])))))"

text \<open>
  A whole conversation: the inputs one after the other, until the state is removed. The
  result is everything that was sent.
\<close>

fun limit_flow :: "json list \<Rightarrow> int option \<Rightarrow> conv_state \<Rightarrow> string list \<Rightarrow> action list" where
  "limit_flow items sender st [] = []"
| "limit_flow items sender st (text # texts) =
     (case limit_input items sender st text of
        (None, acts) \<Rightarrow> acts
      | (Some st', acts) \<Rightarrow> acts @ limit_flow items sender st' texts)"

text \<open>
  The states that the buttons \<^verbatim>\<open>limit_menu\<close> and \<^verbatim>\<open>limit:<cid>\<close> of \<^verbatim>\<open>on_button\<close> create.
\<close>

definition empty_limit_data :: limit_data where
  "empty_limit_data =
     \<lparr>d_token = None, d_strategy_name = JNull, d_amount = None, d_expiry = None,
      d_slippage = None, d_trigger = None\<rparr>"

definition start_ad_hoc :: conv_state where
  "start_ad_hoc = \<lparr>cs_mode = LimitAdHoc, cs_step = StepToken, cs_data = empty_limit_data\<rparr>"

definition start_limit :: "string option \<Rightarrow> json \<Rightarrow> conv_state" where
  "start_limit token name =
     \<lparr>cs_mode = Limit, cs_step = StepAmount,
      cs_data = empty_limit_data\<lparr>d_token := token, d_strategy_name := name\<rparr>\<rparr>"

text \<open>The commands among the things that were sent.\<close>

fun venue_commands :: "action list \<Rightarrow> piece list list" where
  "venue_commands [] = []"
| "venue_commands (Respond s # as) = venue_commands as"
| "venue_commands (SendMessage target cmd # as) = cmd # venue_commands as"

section \<open>Filter evaluation\<close>

subsection \<open>The built-in \<^verbatim>\<open>float\<close> on a JSON value\<close>

text \<open>
  \<^verbatim>\<open>float(s)\<close> on a string: white space is stripped; then one optional sign, digits with
  an optional dot and fraction (or a dot and a fraction), and an optional exponent; single
  underscores may stand between digits. \<open>None\<close> is the ValueError. The words \<^verbatim>\<open>inf\<close>,
  \<^verbatim>\<open>infinity\<close> and \<^verbatim>\<open>nan\<close>, which Python accepts too, have no value among the finite
  floats of this model and are not accepted here.
\<close>

definition digit_or_us :: "char \<Rightarrow> bool" where
  "digit_or_us c \<longleftrightarrow> is_digit c \<or> c = CHR ''_''"

definition digits_of :: "string \<Rightarrow> nat" where
  "digits_of ds = digits_value (filter (\<lambda>c. c \<noteq> CHR ''_'') ds)"

definition float_exponent :: "string \<Rightarrow> int option" where
  "float_exponent r =
     (if r = [] then Some 0
      else if hd r = CHR ''e'' \<or> hd r = CHR ''E''
      then (let r' = tl r;
                neg = (r' \<noteq> [] \<and> hd r' = CHR ''-'');
                ds = (if r' \<noteq> [] \<and> (hd r' = CHR ''-'' \<or> hd r' = CHR ''+'') then tl r' else r')
            in if int_body_ok ds
               then Some (if neg then - int (digits_of ds) else int (digits_of ds))
               else None)
      else None)"

definition float_of_str :: "string \<Rightarrow> real option" where
  "float_of_str s =
     (let t = strip s;
          neg = (t \<noteq> [] \<and> hd t = CHR ''-'');
          body = (if t \<noteq> [] \<and> (hd t = CHR ''-'' \<or> hd t = CHR ''+'') then tl t else t);
          ip = takeWhile digit_or_us body;
          r1 = dropWhile digit_or_us body;
          dot = (r1 \<noteq> [] \<and> hd r1 = CHR ''.'');
          fp = (if dot then takeWhile digit_or_us (tl r1) else []);
          r2 = (if dot then dropWhile digit_or_us (tl r1) else r1);
          nfrac = length (filter is_digit fp);
          m = real (digits_of ip) + real (digits_of fp) / 10 ^ nfrac
      in if (ip = [] \<or> int_body_ok ip) \<and> (fp = [] \<or> int_body_ok fp) \<and> (ip \<noteq> [] \<or> fp \<noteq> [])
         then (case float_exponent r2 of
                 None \<Rightarrow> None
               | Some ex \<Rightarrow>
                   (let v = (if 0 \<le> ex then m * 10 ^ nat ex else m / 10 ^ nat (- ex))
                    in Some (if neg then - v else v)))
         else None)"

fun py_float :: "json \<Rightarrow> py_error + real" where
  "py_float JNull = Inl TypeError"
| "py_float (JBool b) = Inr (if b then 1 else 0)"
| "py_float (JInt n) = Inr (real_of_int n)"
| "py_float (JFloat r) = Inr r"
| "py_float (JStr s) = (case float_of_str s of None \<Rightarrow> Inl ValueError | Some r \<Rightarrow> Inr r)"
| "py_float (JArr xs) = Inl TypeError"
| "py_float (JObj kvs) = Inl TypeError"

subsection \<open>The three checks\<close>

text \<open>
  \<^verbatim>\<open>isinstance(v, dict) and 'from' in v and 'to' in v\<close>: the filter is a range that is
  present.
\<close>

fun range_present :: "json \<Rightarrow> bool" where
  "range_present (JObj kvs) \<longleftrightarrow> map_of kvs ''from'' \<noteq> None \<and> map_of kvs ''to'' \<noteq> None"
| "range_present _ \<longleftrightarrow> False"

text \<open>\<^verbatim>\<open>d[k]\<close> on the dict of a present range.\<close>

fun bound :: "json \<Rightarrow> string \<Rightarrow> json" where
  "bound (JObj kvs) k = (case map_of kvs k of None \<Rightarrow> JNull | Some v \<Rightarrow> v)"
| "bound _ k = JNull"

text \<open>
  \<^verbatim>\<open>low <= value <= high\<close> after the two bounds have gone through \<^verbatim>\<open>float\<close>, with the
  exception of either conversion as \<open>Inl\<close>.
\<close>

definition in_range :: "json \<Rightarrow> real \<Rightarrow> py_error + bool" where
  "in_range rng v =
     (case py_float (bound rng ''from'') of
        Inl e \<Rightarrow> Inl e
      | Inr low \<Rightarrow>
          (case py_float (bound rng ''to'') of
             Inl e \<Rightarrow> Inl e
           | Inr high \<Rightarrow> Inr (low \<le> v \<and> v \<le> high)))"

text \<open>\<^verbatim>\<open>d.get(k, default)\<close> and \<^verbatim>\<open>k in d\<close> on the pairs of a dict.\<close>

definition get_or :: "(string \<times> json) list \<Rightarrow> string \<Rightarrow> json \<Rightarrow> json" where
  "get_or kvs k dflt = (case map_of kvs k of None \<Rightarrow> dflt | Some v \<Rightarrow> v)"

definition has_key :: "(string \<times> json) list \<Rightarrow> string \<Rightarrow> bool" where
  "has_key kvs k \<longleftrightarrow> map_of kvs k \<noteq> None"

text \<open>
  \<^verbatim>\<open>token_age_passes(filters_dict, age_minutes)\<close>: no \<^verbatim>\<open>try\<close>, an exception of \<^verbatim>\<open>float\<close>
  leaves the function.
\<close>

definition token_age_passes :: "(string \<times> json) list \<Rightarrow> real \<Rightarrow> py_error + bool" where
  "token_age_passes filters_dict age_minutes =
     (let ta = get_or filters_dict ''Token Age (minutes)'' JNull
      in if range_present ta then in_range ta age_minutes else Inr True)"

text \<open>
  \<^verbatim>\<open>range_filter_passes(rng, value)\<close>: the \<^verbatim>\<open>except\<close> clause turns an exception into
  \<^verbatim>\<open>False\<close>.
\<close>

definition range_filter_passes :: "json \<Rightarrow> real option \<Rightarrow> bool" where
  "range_filter_passes rng v =
     (if \<not> range_present rng then True
      else (case v of
              None \<Rightarrow> False
            | Some x \<Rightarrow> (case in_range rng x of Inl e \<Rightarrow> False | Inr b \<Rightarrow> b)))"

subsection \<open>One strategy against one message\<close>

text \<open>
  The signals of a message, as \<^verbatim>\<open>parse_message_fields\<close> returns them.
\<close>

record parsed_fields =
  first_buy_pct :: "real option"
  balance_sol :: "real option"
  tx_count :: "int option"
  label :: "string option"

text \<open>
  The legacy keys: \<^verbatim>\<open>First Buy (count)\<close> is copied to \<^verbatim>\<open>First Buy (%)\<close> and
  \<^verbatim>\<open>Mention\<close> to \<^verbatim>\<open>Label\<close> when the current name is absent.
\<close>

definition alias_key :: "string \<Rightarrow> string \<Rightarrow> (string \<times> json) list \<Rightarrow> (string \<times> json) list" where
  "alias_key current legacy f =
     (if \<not> has_key f current \<and> has_key f legacy
      then dict_set current (get_or f legacy JNull) f else f)"

definition normalize_legacy :: "(string \<times> json) list \<Rightarrow> (string \<times> json) list" where
  "normalize_legacy f =
     alias_key ''Label'' ''Mention'' (alias_key ''First Buy (%)'' ''First Buy (count)'' f)"

text \<open>
  What the body of the loop of \<^verbatim>\<open>process_token_message\<close> does with one strategy: it is
  skipped (disabled, or of another group), it fails at one filter, it passes, or an
  exception reaches the \<^verbatim>\<open>except\<close> clause of the loop.
\<close>

datatype outcome = Skipped | Failed string | Passed | Raised py_error

text \<open>The five checks in the order of the source, on the filters after the aliasing.\<close>

definition check_filters :: "(string \<times> json) list \<Rightarrow> parsed_fields \<Rightarrow> real \<Rightarrow> outcome" where
  "check_filters f parsed age =
     (case token_age_passes f age of
        Inl e \<Rightarrow> Raised e
      | Inr ok \<Rightarrow>
          if \<not> ok then Failed ''Token Age''
          else if \<not> range_filter_passes (get_or f ''First Buy (%)'' JNull) (first_buy_pct parsed)
          then Failed ''First Buy %''
          else if \<not> range_filter_passes (get_or f ''Balance (SOL)'' JNull) (balance_sol parsed)
          then Failed ''Balance (SOL)''
          else if \<not> range_filter_passes (get_or f ''Transactions (count)'' JNull)
                      (map_option real_of_int (tx_count parsed))
          then Failed ''Transactions''
          else if \<not> label_filter_passes (get_or f ''Label'' JNull) (label parsed)
          then Failed ''Label''
          else Passed)"

text \<open>
  \<^verbatim>\<open>filters_dict = strat.get('filters', {})\<close> can be any JSON value. The tests
  \<^verbatim>\<open>k in filters_dict\<close> raise TypeError on null, a number or a boolean; on a string or a
  list they answer, and the next \<^verbatim>\<open>filters_dict.get\<close> raises AttributeError.
\<close>

fun evaluate_filters :: "json \<Rightarrow> parsed_fields \<Rightarrow> real \<Rightarrow> outcome" where
  "evaluate_filters (JObj f) parsed age = check_filters (normalize_legacy f) parsed age"
| "evaluate_filters (JStr s) parsed age = Raised AttributeError"
| "evaluate_filters (JArr xs) parsed age = Raised AttributeError"
| "evaluate_filters _ parsed age = Raised TypeError"

fun evaluate_strategy :: "json \<Rightarrow> string \<Rightarrow> parsed_fields \<Rightarrow> real \<Rightarrow> outcome" where
  "evaluate_strategy (JObj strat) gui_group parsed age =
     (if \<not> truthy (get_or strat ''enabled'' (JBool True)) then Skipped
      else if get_or strat ''group'' JNull \<noteq> JStr gui_group then Skipped
      else evaluate_filters (get_or strat ''filters'' (JObj [])) parsed age)"
| "evaluate_strategy _ gui_group parsed age = Raised AttributeError"

subsection \<open>The checks as a list\<close>

text \<open>
  The results of the five checks of a strategy, each as the source computes it, and their
  evaluation one after the other: the first result that is not \<^verbatim>\<open>True\<close> ends it.
\<close>

definition filter_checks ::
  "(string \<times> json) list \<Rightarrow> parsed_fields \<Rightarrow> real \<Rightarrow> (py_error + bool) list" where
  "filter_checks f parsed age =
     [token_age_passes f age,
      Inr (range_filter_passes (get_or f ''First Buy (%)'' JNull) (first_buy_pct parsed)),
      Inr (range_filter_passes (get_or f ''Balance (SOL)'' JNull) (balance_sol parsed)),
      Inr (range_filter_passes (get_or f ''Transactions (count)'' JNull)
             (map_option real_of_int (tx_count parsed))),
      Inr (label_filter_passes (get_or f ''Label'' JNull) (label parsed))]"

fun run_checks :: "(py_error + bool) list \<Rightarrow> py_error + bool" where
  "run_checks [] = Inr True"
| "run_checks (Inl e # cs) = Inl e"
| "run_checks (Inr b # cs) = (if b then run_checks cs else Inr False)"

definition verdict :: "py_error + bool \<Rightarrow> bool" where
  "verdict r \<longleftrightarrow> r = Inr True"

text \<open>A label filter is present when it holds a label other than the wildcard.\<close>

definition label_present :: "json \<Rightarrow> bool" where
  "label_present expected \<longleftrightarrow> truthy expected \<and> expected \<noteq> JStr wildcard"

section \<open>Saving a draft strategy\<close>

subsection \<open>Counting the filters that are set\<close>

text \<open>
  \<^verbatim>\<open>_count_filled_filters(filters)\<close>. The three branches of the loop body, for one item
  \<open>(k, v)\<close> of the dict:
  \<^item> \<open>range_filled v\<close>: \<open>v\<close> is a dict with \<^verbatim>\<open>from\<close> and \<^verbatim>\<open>to\<close>, both not \<^verbatim>\<open>None\<close>;
  \<^item> under the keys \<^verbatim>\<open>Label\<close> and \<^verbatim>\<open>Mention\<close>, \<open>label_filled v\<close>: \<open>v\<close> is truthy and
    \<^verbatim>\<open>str(v).strip()\<close> is neither empty nor \<^verbatim>\<open>Any\<close> (the \<^verbatim>\<open>str\<close> of a truthy value that is
    not a string is never one of the two);
  \<^item> under any other key, \<^verbatim>\<open>v not in (None, '', 'Any')\<close>.
  The last two are \<^verbatim>\<open>elif\<close> and \<^verbatim>\<open>else\<close> of the first: a range whose bounds are not both
  set falls through to them.
\<close>

definition range_filled :: "json \<Rightarrow> bool" where
  "range_filled v \<longleftrightarrow> range_present v \<and> bound v ''from'' \<noteq> JNull \<and> bound v ''to'' \<noteq> JNull"

definition label_filled :: "json \<Rightarrow> bool" where
  "label_filled v \<longleftrightarrow>
     truthy v \<and> (case v of JStr s \<Rightarrow> strip s \<noteq> [] \<and> strip s \<noteq> ''Any'' | _ \<Rightarrow> True)"

definition item_counts :: "string \<times> json \<Rightarrow> bool" where
  "item_counts kv =
     (let k = fst kv; v = snd kv
      in if range_filled v then True
         else if k \<in> set [''Label'', ''Mention''] then label_filled v
         else v \<notin> set [JNull, JStr '''', JStr ''Any''])"

fun count_filled_filters :: "json \<Rightarrow> nat" where
  "count_filled_filters (JObj kvs) = length (filter item_counts kvs)"
| "count_filled_filters _ = 0"

text \<open>
  The count in the words of the specification: a range counts only if both \<^verbatim>\<open>from\<close> and
  \<^verbatim>\<open>to\<close> are non-null, a label counts only if it is non-empty and not the wildcard.
\<close>

definition meaningfully_set :: "string \<times> json \<Rightarrow> bool" where
  "meaningfully_set kv =
     (let k = fst kv; v = snd kv
      in if range_present v then bound v ''from'' \<noteq> JNull \<and> bound v ''to'' \<noteq> JNull
         else k \<in> set [''Label'', ''Mention''] \<and>
              (case v of JStr s \<Rightarrow> strip s \<noteq> [] \<and> strip s \<noteq> wildcard | _ \<Rightarrow> False))"

fun meaningful_options :: "json \<Rightarrow> nat" where
  "meaningful_options (JObj kvs) = length (filter meaningfully_set kvs)"
| "meaningful_options _ = 0"

subsection \<open>The button \<^verbatim>\<open>save\<close>\<close>

text \<open>
  The state of a chat in the builder: its mode (\<^verbatim>\<open>create\<close> or \<^verbatim>\<open>edit\<close>), the index of the
  strategy that is edited (in the owner's view, from 1) and the draft, the dict
  \<^verbatim>\<open>st['data']\<close>.
\<close>

record builder_state =
  b_mode :: string
  b_edit_index :: int
  b_data :: "(string \<times> json) list"

text \<open>
  What a press of \<^verbatim>\<open>save\<close> leaves behind: the persisted list of strategies, whether the
  chat still has its state, and the text shown to the user.
\<close>

record save_result =
  r_store :: "json list"
  r_state_kept :: bool
  r_reply :: string

text \<open>\<^verbatim>\<open>a or b\<close> on two values.\<close>

definition py_or :: "json \<Rightarrow> json \<Rightarrow> json" where
  "py_or a b = (if truthy a then a else b)"

text \<open>
  The \<open>k\<close>-th element (from 0) among those of a list that satisfy \<open>P\<close>, changed by \<open>g\<close>:
  \<^verbatim>\<open>owned[eidx - 1]\<close> is an element of \<^verbatim>\<open>items\<close>, and changing it changes \<^verbatim>\<open>items\<close>.
\<close>

fun update_owned :: "('a \<Rightarrow> bool) \<Rightarrow> nat \<Rightarrow> ('a \<Rightarrow> 'a) \<Rightarrow> 'a list \<Rightarrow> 'a list" where
  "update_owned P k g [] = []"
| "update_owned P k g (x # xs) =
     (if P x then (case k of 0 \<Rightarrow> g x # xs | Suc k' \<Rightarrow> x # update_owned P k' g xs)
      else x # update_owned P k g xs)"

definition default_name :: "int \<Rightarrow> json" where
  "default_name t = JStr (''Strategy '' @ show_int t)"

text \<open>The five assignments to the strategy that is edited.\<close>

definition apply_draft :: "(string \<times> json) list \<Rightarrow> int \<Rightarrow> json \<Rightarrow> json" where
  "apply_draft d t target =
     (case target of
        JObj kvs \<Rightarrow>
          JObj (dict_set ''trojan'' (get_or d ''trojan'' JNull)
               (dict_set ''action'' (get_or d ''action'' JNull)
               (dict_set ''filters'' (get_or d ''filters'' (JObj []))
               (dict_set ''group'' (get_or d ''group'' JNull)
               (dict_set ''name''
                  (py_or (get_or d ''name'' JNull) (py_or (get_or kvs ''name'' JNull) (default_name t)))
                  kvs)))))
      | _ \<Rightarrow> target)"

definition is_dict :: "json \<Rightarrow> bool" where
  "is_dict v \<longleftrightarrow> (case v of JObj kvs \<Rightarrow> True | _ \<Rightarrow> False)"

definition new_strategy :: "(string \<times> json) list \<Rightarrow> int \<Rightarrow> int \<Rightarrow> json" where
  "new_strategy d t sender_id =
     JObj [(''id'', JInt t),
           (''name'', py_or (get_or d ''name'' JNull) (default_name t)),
           (''group'', get_or d ''group'' JNull),
           (''enabled'', JBool True),
           (''filters'', get_or d ''filters'' (JObj [])),
           (''action'', get_or d ''action'' JNull),
           (''trojan'', get_or d ''trojan'' JNull),
           (''owner_id'', JInt sender_id)]"

text \<open>
  The texts \<^verbatim>\<open>Save failed\<close>, \<^verbatim>\<open>Updated\<close> and \<^verbatim>\<open>Saved\<close> with the bytes that follow
  them in the source file.
\<close>

definition save_failed :: string where
  "save_failed =
     ''Save failed '' @ [CHR 0xE2, CHR 0x80, CHR 0x9A, CHR 0xC3, CHR 0xB9, CHR 0xC3, CHR 0xA5]"

definition saved_ok :: "string \<Rightarrow> string" where
  "saved_ok word =
     word @ '' '' @ [CHR 0xE2, CHR 0x80, CHR 0x9A, CHR 0xC3, CHR 0xBA, CHR 0xC3, CHR 0x96]"

text \<open>
  The branch \<^verbatim>\<open>data == 'save'\<close> of \<^verbatim>\<open>on_button\<close> for an authorized sender. \<open>items\<close> is the
  persisted list, which \<^verbatim>\<open>load_strategies()\<close> returns; \<open>disk_ok\<close> tells whether
  \<^verbatim>\<open>save_strategies\<close> succeeds in writing; \<open>t\<close> is \<^verbatim>\<open>int(time.time())\<close>; \<open>st\<close> is the state
  of the chat, if it has one. An exception of the branch reaches the \<^verbatim>\<open>except\<close> clause
  of \<^verbatim>\<open>on_button\<close>, which answers \<^verbatim>\<open>Error\<close>.
\<close>

definition save_pressed ::
  "bool \<Rightarrow> int \<Rightarrow> int \<Rightarrow> json list \<Rightarrow> builder_state option \<Rightarrow> save_result" where
  "save_pressed disk_ok t sender_id items st_opt =
     (case st_opt of
        None \<Rightarrow> \<lparr>r_store = items, r_state_kept = False, r_reply = ''Nothing to save''\<rparr>
      | Some st \<Rightarrow>
          (let d = b_data st; group = get_or d ''group'' JNull in
           if \<not> truthy group
           then \<lparr>r_store = items, r_state_kept = True, r_reply = ''Choose a group first''\<rparr>
           else if group \<noteq> JStr ''@solana_trojanbot'' \<and>
                   count_filled_filters (get_or d ''filters'' (JObj [])) < 3
           then \<lparr>r_store = items, r_state_kept = True,
                 r_reply = ''Set at least 3 filter options before saving''\<rparr>
           else if b_mode st = ''edit''
           then
             (let owned = filter (\<lambda>s. belongs_to s (Some sender_id)) items;
                  eidx = b_edit_index st
              in if \<not> (1 \<le> eidx \<and> eidx \<le> int (length owned))
                 then \<lparr>r_store = items, r_state_kept = False, r_reply = save_failed\<rparr>
                 else if \<not> is_dict (owned ! nat (eidx - 1))
                 then \<lparr>r_store = items, r_state_kept = True, r_reply = ''Error''\<rparr>
                 else if disk_ok
                 then \<lparr>r_store = update_owned (\<lambda>s. belongs_to s (Some sender_id))
                                   (nat (eidx - 1)) (apply_draft d t) items,
                       r_state_kept = False, r_reply = saved_ok ''Updated''\<rparr>
                 else \<lparr>r_store = items, r_state_kept = False, r_reply = save_failed\<rparr>)
           else if disk_ok
           then \<lparr>r_store = items @ [new_strategy d t sender_id],
                 r_state_kept = False, r_reply = saved_ok ''Saved''\<rparr>
           else \<lparr>r_store = items, r_state_kept = False, r_reply = save_failed\<rparr>))"

subsection \<open>A stored strategy whose ranges have no bounds\<close>

text \<open>
  A strategy of the owner 7 as the strategy document can hold it: its three range filters
  are dicts with \<^verbatim>\<open>from\<close> and \<^verbatim>\<open>to\<close> both \<^verbatim>\<open>null\<close>. \<open>unbounded_draft\<close> is the state
  that the button \<^verbatim>\<open>edit\<close> creates for it (a copy of its name, group, filters, action and
  order parameters), after the owner has changed the name to \<^verbatim>\<open>New\<close>.
\<close>

definition unbounded_filters :: json where
  "unbounded_filters =
     JObj [(''Token Age (minutes)'', JObj [(''from'', JNull), (''to'', JNull)]),
           (''Balance (SOL)'', JObj [(''from'', JNull), (''to'', JNull)]),
           (''Transactions (count)'', JObj [(''from'', JNull), (''to'', JNull)])]"

definition unbounded_strategy :: json where
  "unbounded_strategy =
     JObj [(''id'', JInt 1), (''name'', JStr ''Old''), (''group'', JStr ''@SolanaNewPumpfun''),
           (''enabled'', JBool True), (''filters'', unbounded_filters), (''owner_id'', JInt 7)]"

definition unbounded_draft :: builder_state where
  "unbounded_draft =
     \<lparr>b_mode = ''edit'', b_edit_index = 1,
      b_data = [(''name'', JStr ''New''), (''group'', JStr ''@SolanaNewPumpfun''),
                (''filters'', unbounded_filters), (''action'', JObj []), (''trojan'', JObj [])]\<rparr>"

section \<open>Rendering the template of an action\<close>









subsection \<open>Templates of literal text and named placeholders\<close>








section \<open>Deduplication of inbound messages\<close>

subsection \<open>The token address of a text\<close>

definition is_alnum :: "char \<Rightarrow> bool" where
  "is_alnum c =
     (let n = (of_char c :: nat)
      in (48 \<le> n \<and> n \<le> 57) \<or> (65 \<le> n \<and> n \<le> 90) \<or> (97 \<le> n \<and> n \<le> 122))"

text \<open>
  \<^verbatim>\<open>[A-Za-z0-9]{32,44}\<close> at the head of a text: at least 32 such characters, and of a
  longer run the first 44.
\<close>

definition address_at :: "string \<Rightarrow> string option" where
  "address_at s =
     (let run = takeWhile is_alnum s in if 32 \<le> length run then Some (take 44 run) else None)"

text \<open>\<^verbatim>\<open>re.search\<close> with that pattern: the match at the leftmost position that has one.\<close>

fun search_address :: "string \<Rightarrow> string option" where
  "search_address [] = None"
| "search_address (c # cs) =
     (case address_at (c # cs) of Some a \<Rightarrow> Some a | None \<Rightarrow> search_address cs)"

text \<open>
  \<^verbatim>\<open>re.search\<close> with \<^verbatim>\<open>LABEL\s*([A-Za-z0-9]{32,44})\<close>, for the labels \<^verbatim>\<open>CA:\<close> and
  \<^verbatim>\<open>Token:\<close>; the result is group 1.
\<close>

fun search_labeled :: "string \<Rightarrow> string \<Rightarrow> string option" where
  "search_labeled lbl [] = None"
| "search_labeled lbl (c # cs) =
     (if take (length lbl) (c # cs) = lbl
      then (case address_at (dropWhile is_space (drop (length lbl) (c # cs))) of
              Some a \<Rightarrow> Some a
            | None \<Rightarrow> search_labeled lbl cs)
      else search_labeled lbl cs)"

text \<open>\<^verbatim>\<open>extract_token_address(message_text)\<close>: the three patterns in their order.\<close>

definition extract_token_address :: "string \<Rightarrow> string option" where
  "extract_token_address message_text =
     (case search_address message_text of
        Some a \<Rightarrow> Some a
      | None \<Rightarrow>
          (case search_labeled ''CA:'' message_text of
             Some a \<Rightarrow> Some a
           | None \<Rightarrow> search_labeled ''Token:'' message_text))"

subsection \<open>SHA-1\<close>

text \<open>
  \<^verbatim>\<open>hashlib.sha1(data).hexdigest()\<close> on the bytes of a text: the padding, the schedule of
  80 words of each block of 64 bytes, the 80 rounds, and the five words of the state in
  hexadecimal.
\<close>

unbundle bit_operations_syntax

definition byte_word :: "char \<Rightarrow> 32 word" where
  "byte_word c = word_of_nat (of_char c)"

definition be_word :: "string \<Rightarrow> 32 word" where
  "be_word bs = foldl (\<lambda>acc c. push_bit 8 acc OR byte_word c) 0 bs"

fun blocks :: "nat \<Rightarrow> nat \<Rightarrow> 'a list \<Rightarrow> 'a list list" where
  "blocks sz 0 xs = []"
| "blocks sz (Suc k) xs = take sz xs # blocks sz k (drop sz xs)"

definition sha1_pad :: "string \<Rightarrow> string" where
  "sha1_pad msg =
     (let n = length msg
      in msg @ [CHR 0x80] @ replicate ((119 - n mod 64) mod 64) (CHR 0x00) @
         map (\<lambda>i. char_of (unat (drop_bit (8 * i) (word_of_nat (8 * n) :: 64 word) AND 255)))
           [7, 6, 5, 4, 3, 2, 1, 0])"

fun sha1_schedule :: "nat \<Rightarrow> 32 word list \<Rightarrow> 32 word list" where
  "sha1_schedule 0 ws = ws"
| "sha1_schedule (Suc k) ws =
     (let n = length ws
      in sha1_schedule k
           (ws @ [word_rotl 1 (ws ! (n - 3) XOR ws ! (n - 8) XOR ws ! (n - 14) XOR ws ! (n - 16))]))"

type_synonym sha1_state = "32 word \<times> 32 word \<times> 32 word \<times> 32 word \<times> 32 word"

definition sha1_round :: "sha1_state \<Rightarrow> nat \<times> 32 word \<Rightarrow> sha1_state" where
  "sha1_round st iw =
     (case st of (a, b, c, d, e) \<Rightarrow>
        (let i = fst iw; w = snd iw;
             f = (if i < 20 then (b AND c) OR (NOT b AND d)
                  else if i < 40 then b XOR c XOR d
                  else if i < 60 then (b AND c) OR (b AND d) OR (c AND d)
                  else b XOR c XOR d);
             k = (if i < 20 then 0x5A827999
                  else if i < 40 then 0x6ED9EBA1
                  else if i < 60 then 0x8F1BBCDC
                  else 0xCA62C1D6);
             temp = word_rotl 5 a + f + e + k + w
         in (temp, a, word_rotl 30 b, c, d)))"

definition sha1_block :: "sha1_state \<Rightarrow> string \<Rightarrow> sha1_state" where
  "sha1_block h blk =
     (let ws = sha1_schedule 64 (map be_word (blocks 4 16 blk))
      in case (h, foldl sha1_round h (zip [0..<80] ws)) of
           ((h0, h1, h2, h3, h4), (a, b, c, d, e)) \<Rightarrow> (h0 + a, h1 + b, h2 + c, h3 + d, h4 + e))"

definition hex_digit :: "nat \<Rightarrow> char" where
  "hex_digit n = (if n < 10 then char_of (48 + n) else char_of (87 + n))"

definition hex_word :: "32 word \<Rightarrow> string" where
  "hex_word w = map (\<lambda>i. hex_digit (unat (drop_bit (4 * i) w AND 15))) [7, 6, 5, 4, 3, 2, 1, 0]"

definition sha1_hexdigest :: "string \<Rightarrow> string" where
  "sha1_hexdigest msg =
     (let p = sha1_pad msg
      in case foldl sha1_block (0x67452301, 0xEFCDAB89, 0x98BADCFE, 0x10325476, 0xC3D2E1F0)
                (blocks 64 (length p div 64) p) of
           (h0, h1, h2, h3, h4) \<Rightarrow> concat (map hex_word [h0, h1, h2, h3, h4]))"

subsection \<open>The key of a message and the cache\<close>

text \<open>\<^verbatim>\<open>re.sub(r'\s+', ' ', t)\<close>: every run of white space becomes one space.\<close>

function collapse_spaces :: "string \<Rightarrow> string" where
  "collapse_spaces [] = []"
| "collapse_spaces (c # cs) =
     (if is_space c then CHR '' '' # collapse_spaces (dropWhile is_space cs)
      else c # collapse_spaces cs)"
  by pat_completeness auto
termination
  by (relation "measure length") (auto simp: length_dropWhile_le less_Suc_eq_le)

definition normalize_text :: "string \<Rightarrow> string" where
  "normalize_text t = collapse_spaces (lower (strip t))"

definition dedupe_key_for :: "string \<Rightarrow> string" where
  "dedupe_key_for text =
     (case extract_token_address text of
        Some addr \<Rightarrow> ''token:'' @ addr
      | None \<Rightarrow> ''msg:'' @ sha1_hexdigest (normalize_text text))"

text \<open>
  \<^verbatim>\<open>_processed_cache\<close> is a dict from keys to times, floats of seconds.
  \<^verbatim>\<open>_is_duplicate(text)\<close> reads the clock once (\<open>now\<close>), removes the entries that are
  older than the TTL, and then either reports a duplicate or stores the key with \<open>now\<close>.
  The age of an entry is the float \<^verbatim>\<open>now - float(ts)\<close>, the difference rounded. The result
  is the answer and the cache afterwards.
\<close>

type_synonym cache = "string \<rightharpoonup> real"

definition DEDUP_TTL_SECONDS :: real where
  "DEDUP_TTL_SECONDS = 6 * 60 * 60"

definition entry_age :: "real \<Rightarrow> real \<Rightarrow> float64" where
  "entry_age now ts = round_b64 (now - ts)"

definition evict :: "real \<Rightarrow> cache \<Rightarrow> cache" where
  "evict now c =
     (\<lambda>k. case c k of
            None \<Rightarrow> None
          | Some ts \<Rightarrow>
              if f64_less (Finite DEDUP_TTL_SECONDS) (entry_age now ts) then None else Some ts)"

definition is_duplicate :: "real \<Rightarrow> string \<Rightarrow> cache \<Rightarrow> bool \<times> cache" where
  "is_duplicate now text c =
     (let c1 = evict now c; key = dedupe_key_for text
      in case c1 key of
           Some ts \<Rightarrow>
             if f64_le (entry_age now ts) (Finite DEDUP_TTL_SECONDS) then (True, c1)
             else (False, c1(key \<mapsto> now))
         | None \<Rightarrow> (False, c1(key \<mapsto> now)))"

section \<open>The inbound pipeline\<close>

text \<open>
  What the pipeline does besides updating the cache, as a list in the order of the
  source: the call of \<^verbatim>\<open>parse_message_fields\<close> on a text, the reading of the persisted
  strategies, and, for the strategy at an index (from 1), everything that the source does
  once a strategy has passed (the notification of its owner and its action) or, for the
  order venue, once its order is prepared. \<open>Unhandled\<close> is an exception that leaves the
  handler.
\<close>

datatype effect =
    ParseMessageFields string
  | LoadStrategies
  | Dispatch nat
  | TrojanPrepared nat
  | Unhandled py_error

text \<open>
  The loop of \<^verbatim>\<open>process_token_message\<close> over the strategies, counted from \<open>idx\<close>. An
  exception of the body is logged by the \<^verbatim>\<open>except\<close> clause with \<^verbatim>\<open>strat.get('name')\<close>,
  which itself raises for an element that is not a dict and so ends the loop.
\<close>

fun token_loop :: "string \<Rightarrow> parsed_fields \<Rightarrow> real \<Rightarrow> nat \<Rightarrow> json list \<Rightarrow> effect list" where
  "token_loop gui_group parsed age idx [] = []"
| "token_loop gui_group parsed age idx (strat # rest) =
     (case evaluate_strategy strat gui_group parsed age of
        Passed \<Rightarrow> Dispatch idx # token_loop gui_group parsed age (Suc idx) rest
      | Raised e \<Rightarrow>
          if is_dict strat then token_loop gui_group parsed age (Suc idx) rest
          else [Unhandled AttributeError]
      | _ \<Rightarrow> token_loop gui_group parsed age (Suc idx) rest)"

text \<open>
  An inbound message: the username of its chat (if it has one), its text, the clock
  reading \<^verbatim>\<open>time.time()\<close> that \<^verbatim>\<open>_is_duplicate\<close> takes when the message is handled, the
  age in minutes that \<^verbatim>\<open>get_age_minutes\<close> returns for its date (from another reading of
  the clock), and the signals that \<^verbatim>\<open>parse_message_fields\<close> returns for its text.
\<close>

record message_event =
  chat_username :: "string option"
  message_text :: string
  clock_dedup :: real
  age_minutes :: real
  signals :: parsed_fields

text \<open>
  The state of the process that the pipeline reads and writes: the pause flag, the cache,
  and the effects so far. The content of the strategy document is the argument
  \<open>persisted\<close> of the functions below.
\<close>

record bot_state =
  PROCESSING_PAUSED :: bool
  processed_cache :: cache
  effects :: "effect list"

definition process_token_message ::
  "json list \<Rightarrow> message_event \<Rightarrow> string \<Rightarrow> bot_state \<Rightarrow> bot_state" where
  "process_token_message persisted event group_username st =
     (if PROCESSING_PAUSED st then st
      else
        (let age = age_minutes event;
             parsed = signals event
         in st\<lparr>effects := effects st @
                  [ParseMessageFields (message_text event), LoadStrategies] @
                  token_loop (CHR ''@'' # group_username) parsed age 1 persisted\<rparr>))"

text \<open>
  \<^verbatim>\<open>process_trojan_message\<close>: a strategy of the group that is enabled and has all four
  order parameters gets its order prepared.
\<close>

definition trojan_ready :: "json \<Rightarrow> py_error + bool" where
  "trojan_ready trojan =
     (if \<not> truthy trojan then Inr False
      else (case trojan of
              JObj t \<Rightarrow>
                Inr (get_or t ''amount'' JNull \<noteq> JNull \<and> get_or t ''expiry_minutes'' JNull \<noteq> JNull \<and>
                     get_or t ''slippage_pct'' JNull \<noteq> JNull \<and>
                     get_or t ''trigger_price'' JNull \<noteq> JNull)
            | _ \<Rightarrow> Inl AttributeError))"

fun trojan_loop :: "string \<Rightarrow> nat \<Rightarrow> json list \<Rightarrow> effect list" where
  "trojan_loop gui_group idx [] = []"
| "trojan_loop gui_group idx (strat # rest) =
     (case strat of
        JObj s \<Rightarrow>
          (if truthy (get_or s ''enabled'' (JBool True)) \<and>
              get_or s ''group'' JNull = JStr gui_group \<and>
              trojan_ready (get_or s ''trojan'' JNull) = Inr True
           then TrojanPrepared idx # trojan_loop gui_group (Suc idx) rest
           else trojan_loop gui_group (Suc idx) rest)
      | _ \<Rightarrow> [Unhandled AttributeError])"

definition process_trojan_message ::
  "json list \<Rightarrow> message_event \<Rightarrow> string \<Rightarrow> bot_state \<Rightarrow> bot_state" where
  "process_trojan_message persisted event group_username st =
     (if PROCESSING_PAUSED st then st
      else st\<lparr>effects := effects st @ [LoadStrategies] @
                 trojan_loop (CHR ''@'' # group_username) 1 persisted\<rparr>)"

text \<open>
  \<^verbatim>\<open>handler(event)\<close>: for a message of a monitored group, first \<^verbatim>\<open>_is_duplicate\<close>, and for
  a message that is not a duplicate the processing of its group.
\<close>

definition monitored_groups :: "string list" where
  "monitored_groups = [''SolanaNewPumpfun'', ''solana_trojanbot'']"

definition handler :: "json list \<Rightarrow> message_event \<Rightarrow> bot_state \<Rightarrow> bot_state" where
  "handler persisted event st =
     (case chat_username event of
        None \<Rightarrow> st
      | Some group_username \<Rightarrow>
          if group_username \<in> set monitored_groups then
            (let dup = is_duplicate (clock_dedup event) (message_text event) (processed_cache st);
                 st1 = st\<lparr>processed_cache := snd dup\<rparr>
             in if fst dup then st1
                else if group_username = ''solana_trojanbot''
                then process_trojan_message persisted event group_username st1
                else process_token_message persisted event group_username st1)
          else st)"

subsection \<open>States and messages at hand\<close>

text \<open>
  The cache as the program starts with it (\<^verbatim>\<open>_processed_cache = {}\<close>); a process that is
  paused, with that cache and with the cache holding one old entry; and a message of the
  monitored group \<^verbatim>\<open>SolanaNewPumpfun\<close>.
\<close>

definition startup_cache :: cache where
  "startup_cache = Map.empty"

definition paused_at_startup :: bot_state where
  "paused_at_startup =
     \<lparr>PROCESSING_PAUSED = True, processed_cache = startup_cache, effects = []\<rparr>"

definition paused_with_old_entry :: bot_state where
  "paused_with_old_entry =
     \<lparr>PROCESSING_PAUSED = True, processed_cache = startup_cache(''token:old'' \<mapsto> 0),
      effects = []\<rparr>"

definition listing_message :: message_event where
  "listing_message =
     \<lparr>chat_username = Some ''SolanaNewPumpfun'', message_text = ''token X'',
      clock_dedup = 30000, age_minutes = 1,
      signals = \<lparr>first_buy_pct = None, balance_sol = None, tx_count = None, label = None\<rparr>\<rparr>"

text \<open>
  The same process when it is not paused, and a strategy of the group without any filter,
  which every message of the group passes.
\<close>

definition running_at_startup :: bot_state where
  "running_at_startup =
     \<lparr>PROCESSING_PAUSED = False, processed_cache = startup_cache, effects = []\<rparr>"

definition open_strategy :: json where
  "open_strategy =
     JObj [(''name'', JStr ''S''), (''group'', JStr ''@SolanaNewPumpfun''),
           (''enabled'', JBool True), (''filters'', JObj [])]"

text \<open>Two texts with one normalized text: a run of 32 capital letters, and the small ones.\<close>

definition capital_address :: string where
  "capital_address = replicate 32 (CHR ''A'')"

definition small_address :: string where
  "small_address = replicate 32 (CHR ''a'')"

section \<open>Lemmas about numeric parsing\<close>

lemma filter_dropWhile_absorb:
  "(\<And>c. Q c \<Longrightarrow> \<not> P c) \<Longrightarrow> filter P (dropWhile Q s) = filter P s"
  by (induction s) auto

lemma filter_strip_absorb:
  assumes "\<And>c. is_space c \<Longrightarrow> \<not> P c"
  shows "filter P (strip s) = filter P s"
proof -
  have "filter P (strip s) = rev (filter P (dropWhile is_space (rev (dropWhile is_space s))))"
    by (simp add: strip_def rev_filter)
  also have "\<dots> = rev (filter P (rev (dropWhile is_space s)))"
    using assms by (simp add: filter_dropWhile_absorb)
  also have "\<dots> = filter P (dropWhile is_space s)"
    by (simp add: rev_filter)
  also have "\<dots> = filter P s"
    using assms by (simp add: filter_dropWhile_absorb)
  finally show ?thesis .
qed

lemma num_char_not_space: "is_space c \<Longrightarrow> \<not> num_char c"
  by (auto simp: is_space_def num_char_def is_digit_def)

lemma count_list_filter_length: "count_list s a = length (filter (\<lambda>c. c = a) s)"
  by (induction s) auto

lemma count_pos_iff: "count_list s a > 0 \<longleftrightarrow> a \<in> set s"
  by (induction s) auto

lemma count_zero_iff: "count_list s a = 0 \<longleftrightarrow> a \<notin> set s"
  by (induction s) auto

lemma set_strip_nonspace: "\<not> is_space a \<Longrightarrow> a \<in> set (strip s) \<longleftrightarrow> a \<in> set s"
proof -
  assume a: "\<not> is_space a"
  have "filter (\<lambda>c. c = a) (strip s) = filter (\<lambda>c. c = a) s"
    using a by (intro filter_strip_absorb) auto
  then have "set (filter (\<lambda>c. c = a) (strip s)) = set (filter (\<lambda>c. c = a) s)" by simp
  then show ?thesis by auto
qed

lemma filter_num_replace_remove:
  "filter num_char (replace_char (CHR '','') (CHR ''.'') (remove_char (CHR '' '') s)) =
   filter num_char (replace_char (CHR '','') (CHR ''.'') s)"
  by (induction s) (auto simp: replace_char_def remove_char_def num_char_def is_digit_def)

lemma filter_num_remove: "filter num_char (remove_char (CHR '' '') s) = filter num_char s"
  by (induction s) (auto simp: remove_char_def num_char_def is_digit_def)

lemma filter_num_replace_strip:
  "filter num_char (replace_char (CHR '','') (CHR ''.'') (strip s)) =
   filter num_char (replace_char (CHR '','') (CHR ''.'') s)"
proof -
  have "filter num_char (replace_char (CHR '','') (CHR ''.'') t) =
        replace_char (CHR '','') (CHR ''.'') (filter (\<lambda>c. num_char c \<or> c = CHR '','') t)" for t
    by (induction t) (auto simp: replace_char_def num_char_def is_digit_def)
  moreover have "filter (\<lambda>c. num_char c \<or> c = CHR '','') (strip s) =
                 filter (\<lambda>c. num_char c \<or> c = CHR '','') s"
    by (intro filter_strip_absorb) (auto simp: is_space_def num_char_def is_digit_def)
  ultimately show ?thesis by simp
qed

lemma strip_empty_filter: "strip s = [] \<Longrightarrow> filter num_char t = filter num_char t \<and> filter num_char s = []"
proof -
  assume "strip s = []"
  then have "filter num_char (strip s) = []" by simp
  then show ?thesis using filter_strip_absorb [of num_char s] num_char_not_space by simp
qed

lemma float_decimal_Nil: "float_decimal [] = None"
  by (simp add: float_decimal_def)

lemma parse_number_char:
  "parse_number (Some s) =
     (let v = filter num_char (comma_decimal s)
      in if v \<in> set [[], ''+'', ''-'', ''.'', ''+.'', ''-.''] then None else float_decimal v)"
proof (cases "strip s = []")
  case True
  then have e: "filter num_char s = []" using strip_empty_filter by blast
  then have "\<forall>c\<in>set s. \<not> num_char c" by (simp add: filter_empty_conv)
  then have nd: "CHR ''.'' \<notin> set s" by (auto simp: num_char_def)
  have "filter num_char (comma_decimal s) = []"
  proof (cases "CHR '','' \<in> set s")
    case True
    have "filter num_char (replace_char (CHR '','') (CHR ''.'') (strip s)) = []"
      using \<open>strip s = []\<close> by (simp add: replace_char_def)
    then have "filter num_char (replace_char (CHR '','') (CHR ''.'') s) = []"
      by (simp add: filter_num_replace_strip)
    then show ?thesis by (simp add: comma_decimal_def e)
  next
    case False
    then show ?thesis by (simp add: comma_decimal_def e)
  qed
  with True show ?thesis by (simp add: parse_number_def)
next
  case False
  let ?s2 = "remove_char (CHR '' '') (strip s)"
  have c: "CHR '','' \<in> set ?s2 \<longleftrightarrow> CHR '','' \<in> set s"
    by (simp add: remove_char_def set_strip_nonspace is_space_def)
  have d: "CHR ''.'' \<in> set ?s2 \<longleftrightarrow> CHR ''.'' \<in> set s"
    by (simp add: remove_char_def set_strip_nonspace is_space_def)
  have r: "filter num_char (replace_char (CHR '','') (CHR ''.'') ?s2) =
           filter num_char (replace_char (CHR '','') (CHR ''.'') s)"
    by (simp add: filter_num_replace_remove filter_num_replace_strip)
  have k: "filter num_char ?s2 = filter num_char s"
    using filter_strip_absorb [of num_char s] num_char_not_space
    by (simp add: filter_num_remove)
  show ?thesis
    using False c d r k
    by (simp add: parse_number_def Let_def count_pos_iff count_zero_iff comma_decimal_def)
qed

lemma not_digit_sign: "is_digit c \<Longrightarrow> c \<noteq> CHR ''-'' \<and> c \<noteq> CHR ''+'' \<and> c \<noteq> CHR ''.'' \<and> c \<noteq> CHR '',''"
  by (auto simp: is_digit_def)

lemma float_decimal_no_digit:
  assumes "\<forall>c\<in>set v. \<not> is_digit c"
  shows "float_decimal v = None"
proof -
  define body where "body = (if v \<noteq> [] \<and> (hd v = CHR ''-'' \<or> hd v = CHR ''+'') then tl v else v)"
  have sub: "set body \<subseteq> set v"
    by (cases v) (auto simp: body_def)
  then have nb: "\<forall>c\<in>set body. \<not> is_digit c" using assms by blast
  have ip: "takeWhile is_digit body = []"
    using nb by (cases body) auto
  have rest: "dropWhile is_digit body = body"
    using nb by (cases body) auto
  have fp: "\<not> (list_all is_digit (if body = [] then [] else tl body) \<and>
             (if body = [] then [] else tl body) \<noteq> [])"
  proof (cases body)
    case Nil then show ?thesis by simp
  next
    case (Cons b bs)
    then have "\<forall>c\<in>set bs. \<not> is_digit c" using nb by simp
    then show ?thesis using Cons by (cases bs) auto
  qed
  show ?thesis
    unfolding float_decimal_def Let_def body_def [symmetric] ip rest
    using fp by auto
qed

lemma parse_number_no_digit:
  assumes "\<forall>c\<in>set s. \<not> is_digit c"
  shows "parse_number (Some s) = None"
proof -
  have "set (comma_decimal s) \<subseteq> set s \<union> {CHR ''.''}"
    by (auto simp: comma_decimal_def replace_char_def)
  then have "\<forall>c\<in>set (filter num_char (comma_decimal s)). \<not> is_digit c"
    using assms by (auto simp: is_digit_def)
  then have "float_decimal (filter num_char (comma_decimal s)) = None"
    by (rule float_decimal_no_digit)
  then show ?thesis by (simp add: parse_number_char Let_def)
qed

lemma parse_number_comma_as_dot:
  assumes "CHR ''.'' \<notin> set s"
  shows "parse_number (Some s) = parse_number (Some (replace_char (CHR '','') (CHR ''.'') s))"
proof -
  let ?r = "replace_char (CHR '','') (CHR ''.'') s"
  have nc: "CHR '','' \<notin> set ?r" by (auto simp: replace_char_def)
  have id: "CHR '','' \<notin> set s \<Longrightarrow> ?r = s"
    by (induction s) (auto simp: replace_char_def)
  have "comma_decimal s = ?r" using assms id by (auto simp: comma_decimal_def)
  moreover have "comma_decimal ?r = ?r" using nc by (simp add: comma_decimal_def)
  ultimately show ?thesis by (simp add: parse_number_char)
qed

lemma parse_number_spaces:
  "parse_number (Some s) = parse_number (Some (remove_char (CHR '' '') s))"
proof -
  let ?r = "remove_char (CHR '' '') s"
  have c: "CHR '','' \<in> set ?r \<longleftrightarrow> CHR '','' \<in> set s" by (simp add: remove_char_def)
  have d: "CHR ''.'' \<in> set ?r \<longleftrightarrow> CHR ''.'' \<in> set s" by (simp add: remove_char_def)
  have "filter num_char (comma_decimal ?r) = filter num_char (comma_decimal s)"
    using c d by (simp add: comma_decimal_def filter_num_replace_remove filter_num_remove)
  then show ?thesis by (simp add: parse_number_char)
qed

lemma parse_number_thousands:
  assumes "CHR ''.'' \<in> set s"
  shows "parse_number (Some s) = parse_number (Some (remove_char (CHR '','') s))"
proof -
  let ?r = "remove_char (CHR '','') s"
  have d: "CHR ''.'' \<in> set ?r" using assms by (simp add: remove_char_def)
  have "filter num_char ?r = filter num_char s"
    by (induction s) (auto simp: remove_char_def num_char_def is_digit_def)
  moreover have "comma_decimal s = s" using assms by (simp add: comma_decimal_def)
  moreover have "comma_decimal ?r = ?r" using d by (simp add: comma_decimal_def)
  ultimately show ?thesis by (simp add: parse_number_char)
qed

lemma takeWhile_digits_dot:
  "list_all is_digit ip \<Longrightarrow> takeWhile is_digit (ip @ CHR ''.'' # fp) = ip \<and>
     dropWhile is_digit (ip @ CHR ''.'' # fp) = CHR ''.'' # fp"
  by (induction ip) (auto simp: is_digit_def)

lemma replace_digits: "list_all is_digit xs \<Longrightarrow> replace_char (CHR '','') (CHR ''.'') xs = xs"
  by (induction xs) (auto simp: replace_char_def is_digit_def)

lemma filter_num_digits: "list_all is_digit xs \<Longrightarrow> filter num_char xs = xs"
  by (induction xs) (auto simp: num_char_def)

lemma digits_no_dot: "list_all is_digit xs \<Longrightarrow> CHR ''.'' \<notin> set xs"
  by (induction xs) (auto simp: is_digit_def)

lemma float_decimal_digits_dot:
  assumes "ip \<noteq> []" and "list_all is_digit ip" and "list_all is_digit fp"
  shows "float_decimal (ip @ CHR ''.'' # fp) =
         Some (real (digits_value ip) + real (digits_value fp) / 10 ^ length fp)"
proof -
  obtain a as where ip: "ip = a # as" using assms(1) by (cases ip) auto
  have da: "is_digit a" using assms(2) ip by simp
  have h: "hd (ip @ CHR ''.'' # fp) = a" using ip by simp
  have s: "a \<noteq> CHR ''-''" "a \<noteq> CHR ''+''" using not_digit_sign [OF da] by simp_all
  have tw: "takeWhile is_digit (ip @ CHR ''.'' # fp) = ip"
    and dw: "dropWhile is_digit (ip @ CHR ''.'' # fp) = CHR ''.'' # fp"
    using takeWhile_digits_dot [OF assms(2), of fp] by simp_all
  show ?thesis
    unfolding float_decimal_def Let_def h
    using s assms(1,3) by (simp add: tw dw)
qed

lemma parse_number_decimal_comma:
  assumes "ip \<noteq> []" and "list_all is_digit ip" and "list_all is_digit fp"
  shows "parse_number (Some (ip @ CHR '','' # fp)) =
         Some (real (digits_value ip) + real (digits_value fp) / 10 ^ length fp)"
proof -
  let ?s = "ip @ CHR '','' # fp"
  let ?v = "ip @ CHR ''.'' # fp"
  have nd: "CHR ''.'' \<notin> set ?s"
    using digits_no_dot [OF assms(2)] digits_no_dot [OF assms(3)] by simp
  have rep: "replace_char (CHR '','') (CHR ''.'') ?s = ?v"
    using replace_digits [OF assms(2)] replace_digits [OF assms(3)]
    by (simp add: replace_char_def)
  have cd: "comma_decimal ?s = ?v" using nd rep by (simp add: comma_decimal_def)
  have fl: "filter num_char ?v = ?v"
    using filter_num_digits [OF assms(2)] filter_num_digits [OF assms(3)]
    by (simp add: num_char_def)
  obtain a as where ip: "ip = a # as" using assms(1) by (cases ip) auto
  have da: "is_digit a" using assms(2) ip by simp
  have "?v \<noteq> [] \<and> hd ?v \<noteq> CHR ''+'' \<and> hd ?v \<noteq> CHR ''-'' \<and> hd ?v \<noteq> CHR ''.''"
    using ip not_digit_sign [OF da] by simp
  then have notin: "?v \<notin> set [[], ''+'', ''-'', ''.'', ''+.'', ''-.'']"
    by (cases ?v) auto
  show ?thesis
    unfolding parse_number_char Let_def cd fl
    using notin float_decimal_digits_dot [OF assms] by simp
qed

section \<open>Lemmas about the range input\<close>

lemma parse_range_ordered: "parse_range text = Some (lo, hi) \<Longrightarrow> lo \<le> hi"
  unfolding parse_range_def Let_def
  by (auto split: if_splits option.splits prod.splits)

lemma dict_set_ranges_ordered:
  "ranges_ordered filters \<Longrightarrow> range_ordered v \<Longrightarrow> ranges_ordered (dict_set k v filters)"
  by (induction filters) (auto simp: ranges_ordered_def)

lemma range_dict_ordered: "fst r \<le> snd r \<Longrightarrow> range_ordered (range_dict r)"
  by (simp add: range_ordered_def range_dict_def)

lemma map_of_dict_set: "map_of (dict_set k v kvs) k = Some v"
  by (induction kvs) auto

section \<open>Lemmas about the limit-order flow\<close>

lemma send_and_finish_sends:
  assumes "SendMessage target cmd \<in> set (send_and_finish m d)"
  shows "target = ''solana_trojanbot'' \<and>
         (\<exists>m. d_expiry d = Some (Finite m) \<and>
              cmd = limit_command (d_token d) (d_amount d) (trunc m) (d_slippage d) (d_trigger d))"
proof -
  from assms obtain x where x: "d_expiry d = Some x"
    by (cases "d_expiry d")
       (auto simp: send_and_finish_def send_limit_to_trojan_def Let_def split: if_splits)
  with assms show ?thesis
    by (cases x)
       (auto simp: send_and_finish_def send_limit_to_trojan_def Let_def split: if_splits)
qed

lemma limit_input_sends:
  assumes "SendMessage target cmd \<in> set (snd (limit_input items sender st text))"
  shows "target = ''solana_trojanbot'' \<and> cs_step st = StepTrigger \<and>
         (\<exists>m v. d_expiry (cs_data st) = Some (Finite m) \<and>
              parse_number (Some (strip text)) = Some v \<and>
              cmd = limit_command (d_token (cs_data st)) (d_amount (cs_data st)) (trunc m)
                      (d_slippage (cs_data st)) (Some v))"
proof (cases "cs_step st")
  case StepTrigger
  show ?thesis
  proof (cases "parse_number (Some (strip text))")
    case None
    with StepTrigger assms show ?thesis
      by (auto simp: limit_input_def slash_command_def Let_def split: if_splits)
  next
    case (Some v)
    let ?d = "(cs_data st)\<lparr>d_trigger := Some v\<rparr>"
    from assms StepTrigger Some
    have "\<exists>m. SendMessage target cmd \<in> set (send_and_finish m ?d)"
      by (auto simp: limit_input_def slash_command_def Let_def conversation_error_def
          split: if_splits sum.splits option.splits)
    then obtain m where "SendMessage target cmd \<in> set (send_and_finish m ?d)" ..
    from send_and_finish_sends [OF this] StepTrigger Some show ?thesis by simp
  qed
qed (use assms in \<open>auto simp: limit_input_def slash_command_def Let_def conversation_error_def
      split: if_splits sum.splits option.splits\<close>)

lemma limit_input_expiry:
  assumes "limit_input items sender st text = (Some st', acts)"
    and "d_expiry (cs_data st') \<noteq> d_expiry (cs_data st)"
  shows "cs_step st = StepExpiry \<and>
         parse_duration_to_minutes (Some (strip text)) = Inr (d_expiry (cs_data st'))"
  using assms
  by (cases "cs_step st")
     (auto simp: limit_input_def slash_command_def Let_def split: if_splits sum.splits option.splits)


lemma limit_input_step_amount:
  assumes "\<not> slash_command t" and "parse_number (Some (strip t)) = Some v"
    and "cs_step st = StepAmount"
  shows "limit_input items sender st t =
         (Some (st\<lparr>cs_data := (cs_data st)\<lparr>d_amount := Some v\<rparr>, cs_step := StepExpiry\<rparr>),
          [Respond ''Expiry (e.g., 45s, 30m, 2h, 1d):''])"
  using assms by (simp add: limit_input_def Let_def)

lemma limit_input_step_expiry:
  assumes "\<not> slash_command t" and "parse_duration_to_minutes (Some (strip t)) = Inr (Some v)"
    and "cs_step st = StepExpiry"
  shows "limit_input items sender st t =
         (Some (st\<lparr>cs_data := (cs_data st)\<lparr>d_expiry := Some v\<rparr>, cs_step := StepSlippage\<rparr>),
          [Respond ''Slippage %:''])"
  using assms by (simp add: limit_input_def Let_def)

lemma limit_input_step_slippage:
  assumes "\<not> slash_command t" and "parse_number (Some (strip t)) = Some v"
    and "cs_step st = StepSlippage"
  shows "limit_input items sender st t =
         (Some (st\<lparr>cs_data := (cs_data st)\<lparr>d_slippage := Some v\<rparr>, cs_step := StepTrigger\<rparr>),
          [Respond ''Trigger Price (SOL):''])"
  using assms by (simp add: limit_input_def Let_def)

lemma limit_input_step_token:
  assumes "\<not> slash_command t" and "cs_step st = StepToken" and "cs_mode st = LimitAdHoc"
  shows "limit_input items sender st t =
         (Some (st\<lparr>cs_data := (cs_data st)\<lparr>d_token := Some (strip t)\<rparr>, cs_step := StepAmount\<rparr>),
          [Respond ''Amount (SOL):''])"
  using assms by (simp add: limit_input_def Let_def)

lemma limit_input_step_trigger_ad_hoc:
  assumes "\<not> slash_command t" and "parse_number (Some (strip t)) = Some v"
    and "cs_step st = StepTrigger" and "cs_mode st = LimitAdHoc"
  shows "limit_input items sender st t =
         (None, send_and_finish LimitAdHoc ((cs_data st)\<lparr>d_trigger := Some v\<rparr>))"
  using assms by (simp add: limit_input_def Let_def)

lemma ad_hoc_flow_commands:
  assumes ns: "\<not> slash_command tok" "\<not> slash_command ta" "\<not> slash_command te"
      "\<not> slash_command ts" "\<not> slash_command tg"
    and a: "parse_number (Some (strip ta)) = Some a"
    and e: "parse_duration_to_minutes (Some (strip te)) = Inr (Some (Finite e))"
    and s: "parse_number (Some (strip ts)) = Some s"
    and g: "parse_number (Some (strip tg)) = Some g"
  shows "venue_commands (limit_flow items sender start_ad_hoc [tok, ta, te, ts, tg]) =
         [limit_command (Some (strip tok)) (Some a) (trunc e) (Some s) (Some g)]"
proof -
  define s1 where "s1 = start_ad_hoc\<lparr>cs_data := (cs_data start_ad_hoc)\<lparr>d_token := Some (strip tok)\<rparr>,
                                      cs_step := StepAmount\<rparr>"
  define s2 where "s2 = s1\<lparr>cs_data := (cs_data s1)\<lparr>d_amount := Some a\<rparr>, cs_step := StepExpiry\<rparr>"
  define s3 where "s3 = s2\<lparr>cs_data := (cs_data s2)\<lparr>d_expiry := Some (Finite e)\<rparr>,
                           cs_step := StepSlippage\<rparr>"
  define s4 where "s4 = s3\<lparr>cs_data := (cs_data s3)\<lparr>d_slippage := Some s\<rparr>, cs_step := StepTrigger\<rparr>"
  have i1: "limit_input items sender start_ad_hoc tok = (Some s1, [Respond ''Amount (SOL):''])"
    unfolding s1_def by (rule limit_input_step_token [OF ns(1)]) (simp_all add: start_ad_hoc_def)
  have i2: "limit_input items sender s1 ta = (Some s2, [Respond ''Expiry (e.g., 45s, 30m, 2h, 1d):''])"
    unfolding s2_def by (rule limit_input_step_amount [OF ns(2) a]) (simp add: s1_def)
  have i3: "limit_input items sender s2 te = (Some s3, [Respond ''Slippage %:''])"
    unfolding s3_def by (rule limit_input_step_expiry [OF ns(3) e]) (simp add: s2_def)
  have i4: "limit_input items sender s3 ts = (Some s4, [Respond ''Trigger Price (SOL):''])"
    unfolding s4_def by (rule limit_input_step_slippage [OF ns(4) s]) (simp add: s3_def)
  have i5: "limit_input items sender s4 tg =
            (None, send_and_finish LimitAdHoc ((cs_data s4)\<lparr>d_trigger := Some g\<rparr>))"
    by (rule limit_input_step_trigger_ad_hoc [OF ns(5) g])
       (simp_all add: s4_def s3_def s2_def s1_def start_ad_hoc_def)
  have d: "send_and_finish LimitAdHoc ((cs_data s4)\<lparr>d_trigger := Some g\<rparr>) =
           [SendMessage ''solana_trojanbot''
              (limit_command (Some (strip tok)) (Some a) (trunc e) (Some s) (Some g)),
            Respond limit_sent_reply]"
    by (simp add: send_and_finish_def send_limit_to_trojan_def s4_def s3_def s2_def s1_def
        start_ad_hoc_def empty_limit_data_def)
  show ?thesis
    by (simp add: i1 i2 i3 i4 i5 d)
qed

section \<open>Lemmas about filter evaluation\<close>

lemma run_checks_verdict: "verdict (run_checks cs) \<longleftrightarrow> (\<forall>c\<in>set cs. c = Inr True)"
  by (induction cs rule: run_checks.induct) (auto simp: verdict_def)

lemma run_checks_permute:
  "mset cs' = mset cs \<Longrightarrow> verdict (run_checks cs') = verdict (run_checks cs)"
  using mset_eq_setD run_checks_verdict by blast

lemma check_filters_verdict:
  "check_filters f parsed age = Passed \<longleftrightarrow> verdict (run_checks (filter_checks f parsed age))"
  by (cases "token_age_passes f age")
     (auto simp: check_filters_def filter_checks_def verdict_def)

lemma range_absent_passes: "\<not> range_present rng \<Longrightarrow> range_filter_passes rng v"
  by (simp add: range_filter_passes_def)

lemma token_age_absent_passes:
  "\<not> range_present (get_or f ''Token Age (minutes)'' JNull) \<Longrightarrow> token_age_passes f age = Inr True"
  by (simp add: token_age_passes_def)

lemma label_absent_passes: "\<not> label_present expected \<Longrightarrow> label_filter_passes expected detected"
  by (auto simp: label_present_def label_filter_passes_def)

lemma check_filters_present:
  "check_filters f parsed age = Passed \<longleftrightarrow>
     (range_present (get_or f ''Token Age (minutes)'' JNull) \<longrightarrow> token_age_passes f age = Inr True) \<and>
     (range_present (get_or f ''First Buy (%)'' JNull) \<longrightarrow>
        range_filter_passes (get_or f ''First Buy (%)'' JNull) (first_buy_pct parsed)) \<and>
     (range_present (get_or f ''Balance (SOL)'' JNull) \<longrightarrow>
        range_filter_passes (get_or f ''Balance (SOL)'' JNull) (balance_sol parsed)) \<and>
     (range_present (get_or f ''Transactions (count)'' JNull) \<longrightarrow>
        range_filter_passes (get_or f ''Transactions (count)'' JNull)
          (map_option real_of_int (tx_count parsed))) \<and>
     (label_present (get_or f ''Label'' JNull) \<longrightarrow>
        label_filter_passes (get_or f ''Label'' JNull) (label parsed))"
  unfolding check_filters_verdict run_checks_verdict filter_checks_def
  using range_absent_passes token_age_absent_passes label_absent_passes
  by auto

lemma evaluate_strategy_passed:
  "evaluate_strategy (JObj strat) gui_group parsed age = Passed \<longleftrightarrow>
     truthy (get_or strat ''enabled'' (JBool True)) \<and>
     get_or strat ''group'' JNull = JStr gui_group \<and>
     (\<exists>f. get_or strat ''filters'' (JObj []) = JObj f \<and>
          check_filters (normalize_legacy f) parsed age = Passed)"
  by (cases "get_or strat ''filters'' (JObj [])") auto

section \<open>Lemmas about saving a draft\<close>

text \<open>
  A save is refused, with the store as it was, whenever the group is not the order venue
  and \<open>count_filled_filters\<close> is below three.
\<close>

lemma save_refused_below_three:
  assumes "truthy (get_or (b_data st) ''group'' JNull)"
    and "get_or (b_data st) ''group'' JNull \<noteq> JStr ''@solana_trojanbot''"
    and "count_filled_filters (get_or (b_data st) ''filters'' (JObj [])) < 3"
  shows "save_pressed disk_ok t sender_id items (Some st) =
         \<lparr>r_store = items, r_state_kept = True,
          r_reply = ''Set at least 3 filter options before saving''\<rparr>"
  using assms by (simp add: save_pressed_def Let_def)

text \<open>
  Where the two counts part: an item counts for the program and not in the words of the
  specification only if it is a range with a bound that is null under a key that is not a
  label key, or a value that is neither a range nor under a label key.
\<close>

lemma meaningfully_set_counts: "meaningfully_set kv \<Longrightarrow> item_counts kv"
  by (cases "snd kv")
     (auto simp: meaningfully_set_def item_counts_def range_filled_def label_filled_def
        wildcard_def strip_def Let_def split: if_splits)

lemma meaningful_options_le: "meaningful_options f \<le> count_filled_filters f"
proof (cases f)
  case (JObj kvs)
  have "length (filter meaningfully_set kvs) \<le> length (filter item_counts kvs)"
  proof (induction kvs)
    case Nil
    show ?case by simp
  next
    case (Cons kv kvs)
    then show ?case using meaningfully_set_counts [of kv] by auto
  qed
  with JObj show ?thesis by simp
qed simp_all

text \<open>The owner 7 owns the stored strategy, and the save of the draft goes through.\<close>

lemma unbounded_strategy_owned: "belongs_to unbounded_strategy (Some 7)"
  by (simp add: unbounded_strategy_def belongs_to_def belongs_to_body_def)

lemma unbounded_draft_saved:
  "save_pressed True 1700000000 7 [unbounded_strategy] (Some unbounded_draft) =
     \<lparr>r_store =
        [JObj [(''id'', JInt 1), (''name'', JStr ''New''), (''group'', JStr ''@SolanaNewPumpfun''),
               (''enabled'', JBool True), (''filters'', unbounded_filters),
               (''owner_id'', JInt 7), (''action'', JObj []), (''trojan'', JObj [])]],
      r_state_kept = False, r_reply = saved_ok ''Updated''\<rparr>"
  using unbounded_strategy_owned
  by (simp add: save_pressed_def Let_def unbounded_draft_def get_or_def
      unbounded_filters_def item_counts_def range_filled_def is_dict_def
      unbounded_strategy_def apply_draft_def py_or_def)

section \<open>Lemmas about template rendering\<close>









section \<open>Lemmas about deduplication and the pipeline\<close>

lemma f64_le_not_less: "f64_le x (Finite t) \<Longrightarrow> \<not> f64_less (Finite t) x"
  by (cases x) simp_all

lemma f64_less_not_le: "f64_less (Finite t) x \<Longrightarrow> \<not> f64_le x (Finite t)"
  by (cases x) simp_all

lemma evict_startup: "evict now startup_cache = startup_cache"
  by (simp add: evict_def startup_cache_def)

lemma is_duplicate_first:
  "is_duplicate now text startup_cache = (False, startup_cache(dedupe_key_for text \<mapsto> now))"
  by (simp add: is_duplicate_def evict_startup Let_def) (simp add: startup_cache_def)

lemma evict_live:
  assumes "f64_le (entry_age now ts) (Finite DEDUP_TTL_SECONDS)"
  shows "evict now (startup_cache(k \<mapsto> ts)) = startup_cache(k \<mapsto> ts)"
  using f64_le_not_less [OF assms]
  by (auto simp: evict_def startup_cache_def fun_eq_iff)

lemma evict_expired:
  assumes "f64_less (Finite DEDUP_TTL_SECONDS) (entry_age now ts)"
  shows "evict now (startup_cache(k \<mapsto> ts)) = startup_cache"
  using assms by (auto simp: evict_def startup_cache_def fun_eq_iff)

lemma is_duplicate_live:
  assumes "f64_le (entry_age now ts) (Finite DEDUP_TTL_SECONDS)"
  shows "is_duplicate now text (startup_cache(dedupe_key_for text \<mapsto> ts)) =
         (True, startup_cache(dedupe_key_for text \<mapsto> ts))"
  using assms by (simp add: is_duplicate_def evict_live [OF assms] Let_def)

lemma is_duplicate_expired:
  assumes "f64_less (Finite DEDUP_TTL_SECONDS) (entry_age now ts)"
  shows "is_duplicate now text (startup_cache(dedupe_key_for text \<mapsto> ts)) =
         (False, startup_cache(dedupe_key_for text \<mapsto> now))"
  by (simp add: is_duplicate_def evict_expired [OF assms] Let_def) (simp add: startup_cache_def)

lemma same_address_same_key:
  "extract_token_address t1 = Some a \<Longrightarrow> extract_token_address t2 = Some a \<Longrightarrow>
   dedupe_key_for t2 = dedupe_key_for t1"
  by (simp add: dedupe_key_for_def)

lemma same_text_same_key:
  "extract_token_address t1 = None \<Longrightarrow> extract_token_address t2 = None \<Longrightarrow>
   normalize_text t2 = normalize_text t1 \<Longrightarrow> dedupe_key_for t2 = dedupe_key_for t1"
  by (simp add: dedupe_key_for_def)

lemma entry_age_zero: "entry_age now now = Finite 0"
  by (simp add: entry_age_def round_b64_def)

text \<open>After \<open>is_duplicate\<close> the cache holds the key of the text.\<close>

lemma is_duplicate_stores:
  "snd (is_duplicate now text c) (dedupe_key_for text) \<noteq> None"
  by (simp add: is_duplicate_def Let_def split: option.splits)

text \<open>The two processing functions do nothing when the process is paused.\<close>

lemma process_token_message_paused:
  "PROCESSING_PAUSED st \<Longrightarrow> process_token_message persisted event g st = st"
  by (simp add: process_token_message_def)

lemma process_trojan_message_paused:
  "PROCESSING_PAUSED st \<Longrightarrow> process_trojan_message persisted event g st = st"
  by (simp add: process_trojan_message_def)

lemma handler_paused:
  assumes "PROCESSING_PAUSED st"
  shows "handler persisted event st =
         (case chat_username event of
            None \<Rightarrow> st
          | Some g \<Rightarrow>
              if g \<in> set monitored_groups
              then st\<lparr>processed_cache :=
                        snd (is_duplicate (clock_dedup event) (message_text event)
                               (processed_cache st))\<rparr>
              else st)"
  using assms
  by (simp add: handler_def Let_def process_token_message_paused process_trojan_message_paused
      split: option.splits)

section \<open>Results\<close>

text \<open>
  C10. A strategy record whose \<^verbatim>\<open>owner_id\<close> is present (not null) and cannot be read as an
  integer belongs to every requesting owner id: the ownership test fails open, so the
  record is in every owner's scoped view.
\<close>

theorem belongs_to_fails_open:
  assumes "py_get strategy ''owner_id'' = Inr sid"
    and "sid \<noteq> JNull"
    and "py_int sid = Inl e"
  shows "belongs_to strategy (Some oid) \<and>
         (strategy \<in> set items \<longrightarrow> strategy \<in> set (owned_by items (Some oid)))"
  using assms by (simp add: belongs_to_def belongs_to_body_def owned_by_def)

theorem belongs_to_fails_open_witness:
  "belongs_to (JObj [(''name'', JStr ''s''), (''owner_id'', JStr ''abc'')]) (Some 7) \<and>
   JObj [(''name'', JStr ''s''), (''owner_id'', JStr ''abc'')]
     \<in> set (owned_by [JObj [(''name'', JStr ''s''), (''owner_id'', JStr ''abc'')]] (Some 7))"
proof -
  let ?s = "JObj [(''name'', JStr ''s''), (''owner_id'', JStr ''abc'')]"
  have g: "py_get ?s ''owner_id'' = Inr (JStr ''abc'')" by simp
  have n: "JStr ''abc'' \<noteq> JNull" by simp
  have i: "py_int (JStr ''abc'') = Inl ValueError"
    by (simp add: py_int_str_def strip_def is_space_def is_digit_def)
  show ?thesis
    using belongs_to_fails_open [OF g n i, of 7 "[?s]"] by simp
qed

text \<open>
  C7. When the label filter is absent, or its expected value is the wildcard, the label
  check passes whatever label was detected, also when none was. When a label other than
  the wildcard is expected and the detected label is null or another one, the check fails.
\<close>

theorem label_filter_wildcard:
  "label_filter_passes JNull detected \<and>
   label_filter_passes (JStr wildcard) detected \<and>
   (\<forall>l. l \<noteq> [] \<and> l \<noteq> wildcard \<and> detected \<noteq> Some l \<longrightarrow>
        \<not> label_filter_passes (JStr l) detected)"
  by (auto simp: label_filter_passes_def py_eq_label_def split: option.splits)

theorem label_filter_wildcard_witness:
  "label_filter_passes JNull None \<and>
   label_filter_passes (JStr wildcard) None \<and>
   \<not> label_filter_passes (JStr ''Dev Wallet Empty'') None \<and>
   \<not> label_filter_passes (JStr ''Dev Wallet Empty'') (Some ''Dev Has Enough Money'')"
proof -
  have a: "''Dev Wallet Empty'' \<noteq> [] \<and> ''Dev Wallet Empty'' \<noteq> wildcard \<and>
           None \<noteq> Some ''Dev Wallet Empty''"
    by (simp add: wildcard_def)
  have b: "''Dev Wallet Empty'' \<noteq> [] \<and> ''Dev Wallet Empty'' \<noteq> wildcard \<and>
           Some ''Dev Has Enough Money'' \<noteq> Some ''Dev Wallet Empty''"
    by (simp add: wildcard_def)
  from a label_filter_wildcard [of None]
  have 1: "label_filter_passes JNull None \<and> label_filter_passes (JStr wildcard) None \<and>
           \<not> label_filter_passes (JStr ''Dev Wallet Empty'') None"
    by blast
  from b label_filter_wildcard [of "Some ''Dev Has Enough Money''"]
  have 2: "\<not> label_filter_passes (JStr ''Dev Wallet Empty'') (Some ''Dev Has Enough Money'')"
    by blast
  from 1 2 show ?thesis by simp
qed

text \<open>
  C6. Numeric parsing reads a comma as the decimal separator when the text has no dot,
  drops spaces, drops the commas of a text that has a dot (thousands separators), and
  returns null for a text without a digit (one that reduces to signs and dots only).
  In particular \<^verbatim>\<open>"1 000,50"\<close> is 1000.50, \<^verbatim>\<open>"-"\<close> is null and \<^verbatim>\<open>"12.3abc"\<close> is 12.3.
\<close>

theorem parse_number_normalises:
  "(CHR ''.'' \<notin> set s \<longrightarrow>
      parse_number (Some s) = parse_number (Some (replace_char (CHR '','') (CHR ''.'') s))) \<and>
   (ip \<noteq> [] \<and> list_all is_digit ip \<and> list_all is_digit fp \<longrightarrow>
      parse_number (Some (ip @ CHR '','' # fp)) =
        Some (real (digits_value ip) + real (digits_value fp) / 10 ^ length fp)) \<and>
   parse_number (Some s) = parse_number (Some (remove_char (CHR '' '') s)) \<and>
   (CHR ''.'' \<in> set s \<longrightarrow>
      parse_number (Some s) = parse_number (Some (remove_char (CHR '','') s))) \<and>
   ((\<forall>c\<in>set s. \<not> is_digit c) \<longrightarrow> parse_number (Some s) = None) \<and>
   parse_number None = None \<and>
   parse_number (Some ''1 000,50'') = Some 1000.50 \<and>
   parse_number (Some ''-'') = None \<and>
   parse_number (Some ''12.3abc'') = Some 12.3"
proof -
  have e1: "parse_number (Some ''1 000,50'') = Some 1000.50"
    by (simp add: parse_number_def strip_def is_space_def remove_char_def replace_char_def
        num_char_def is_digit_def float_decimal_def digits_value_def digit_val_def)
  have e2: "parse_number (Some ''-'') = None"
    by (simp add: parse_number_def strip_def is_space_def remove_char_def replace_char_def
        num_char_def is_digit_def)
  have e3: "parse_number (Some ''12.3abc'') = Some 12.3"
    by (simp add: parse_number_def strip_def is_space_def remove_char_def replace_char_def
        num_char_def is_digit_def float_decimal_def digits_value_def digit_val_def)
  have e0: "parse_number None = None"
    by (simp add: parse_number_def)
  show ?thesis
    using parse_number_comma_as_dot [of s] parse_number_decimal_comma [of ip fp]
      parse_number_spaces [of s] parse_number_thousands [of s] parse_number_no_digit [of s]
      e0 e1 e2 e3
    by blast
qed

theorem parse_number_normalises_witness:
  "parse_number (Some ''1 000,50'') = parse_number (Some ''1 000.50'') \<and>
   parse_number (Some ''1000,50'') = Some 1000.50 \<and>
   parse_number (Some ''1,000.50'') = parse_number (Some ''1000.50'') \<and>
   parse_number (Some ''+-.'') = None"
proof -
  have a: "CHR ''.'' \<notin> set ''1 000,50''" by simp
  have b: "''1000'' \<noteq> [] \<and> list_all is_digit ''1000'' \<and> list_all is_digit ''50''"
    by (simp add: is_digit_def)
  have c: "CHR ''.'' \<in> set ''1,000.50''" by simp
  have d: "\<forall>c\<in>set ''+-.''. \<not> is_digit c" by (simp add: is_digit_def)
  have v: "real (digits_value ''1000'') + real (digits_value ''50'') / 10 ^ length ''50''
           = 1000.50"
    by (simp add: digits_value_def digit_val_def)
  from a parse_number_normalises [of "''1 000,50''" "''1000''" "''50''"]
  have 1: "parse_number (Some ''1 000,50'') = parse_number (Some ''1 000.50'')"
    by (simp add: replace_char_def)
  from b v parse_number_normalises [of "''1 000,50''" "''1000''" "''50''"]
  have 2: "parse_number (Some ''1000,50'') = Some 1000.50"
    by simp
  from c parse_number_normalises [of "''1,000.50''" "''1000''" "''50''"]
  have 3: "parse_number (Some ''1,000.50'') = parse_number (Some ''1000.50'')"
    by (simp add: remove_char_def)
  from d parse_number_normalises [of "''+-.''" "''1000''" "''50''"]
  have 4: "parse_number (Some ''+-.'') = None"
    by blast
  from 1 2 3 4 show ?thesis by simp
qed

text \<open>
  C9. Every range that the builder's free-text range input commits to a draft has
  \<open>from \<le> to\<close>: whatever text \<^verbatim>\<open>_parse_range\<close> accepts, the range it returns is ordered,
  the draft holds that range under the filter's name afterwards, and filters whose present
  ranges were all ordered before the input are so after it.
\<close>

theorem range_input_ordered:
  "(parse_range text = Some (lo, hi) \<longrightarrow> lo \<le> hi) \<and>
   (map_of range_mapping key = Some name \<and> edit_range_input key t filters = Inr filters' \<longrightarrow>
      (\<exists>a b. parse_range (Some t) = Some (a, b) \<and> a \<le> b \<and>
             map_of filters' name = Some (range_dict (a, b))) \<and>
      (ranges_ordered filters \<longrightarrow> ranges_ordered filters'))"
proof -
  have 1: "parse_range text = Some (lo, hi) \<longrightarrow> lo \<le> hi"
    using parse_range_ordered by blast
  have 2: "(\<exists>a b. parse_range (Some t) = Some (a, b) \<and> a \<le> b \<and>
             map_of filters' name = Some (range_dict (a, b))) \<and>
           (ranges_ordered filters \<longrightarrow> ranges_ordered filters')"
    if m: "map_of range_mapping key = Some name"
      and e: "edit_range_input key t filters = Inr filters'"
  proof -
    from m e obtain rng where p: "parse_range (Some t) = Some rng"
      and f: "filters' = dict_set name (range_dict rng) filters"
      by (auto simp: edit_range_input_def split: option.splits)
    obtain a b where r: "rng = (a, b)" by (cases rng)
    have le: "a \<le> b" using p r parse_range_ordered by blast
    have o: "range_ordered (range_dict rng)"
      using le r by (simp add: range_dict_ordered)
    show ?thesis
      using p r le f o by (simp add: map_of_dict_set dict_set_ranges_ordered)
  qed
  from 1 2 show ?thesis by blast
qed

theorem range_input_ordered_witness:
  "parse_range (Some ''5,1'') = Some (1, 5) \<and>
   parse_range (Some ''10 TO 2'') = Some (2, 10) \<and>
   parse_range (Some ''9 - 4.5'') = Some (4.5, 9) \<and>
   parse_range (Some ''7 3'') = Some (3, 7) \<and>
   parse_range (Some ''3'') = Some (3, 3) \<and>
   (1::real) \<le> 5 \<and>
   map_of range_mapping ''balance'' = Some ''Balance (SOL)'' \<and>
   edit_range_input ''balance'' ''5,1'' [(''Label'', JStr ''Any'')] =
     Inr [(''Label'', JStr ''Any''), (''Balance (SOL)'', range_dict (1, 5))] \<and>
   ranges_ordered [(''Label'', JStr ''Any'')] \<and>
   ranges_ordered [(''Label'', JStr ''Any''), (''Balance (SOL)'', range_dict (1, 5))]"
proof -
  have p: "parse_range (Some ''5,1'') = Some (1, 5)" by code_simp
  have p2: "parse_range (Some ''10 TO 2'') = Some (2, 10)" by code_simp
  have p3: "parse_range (Some ''9 - 4.5'') = Some (4.5, 9)" by code_simp
  have p4: "parse_range (Some ''7 3'') = Some (3, 7)" by code_simp
  have p5: "parse_range (Some ''3'') = Some (3, 3)" by code_simp
  have m: "map_of range_mapping ''balance'' = Some ''Balance (SOL)''"
    by (simp add: range_mapping_def)
  have e: "edit_range_input ''balance'' ''5,1'' [(''Label'', JStr ''Any'')] =
           Inr [(''Label'', JStr ''Any''), (''Balance (SOL)'', range_dict (1, 5))]"
    by (simp add: edit_range_input_def m p)
  have o: "ranges_ordered [(''Label'', JStr ''Any'')]"
    by (simp add: ranges_ordered_def range_ordered_def)
  from range_input_ordered [of "Some ''5,1''" 1 5 "''balance''" "''Balance (SOL)''" "''5,1''"
      "[(''Label'', JStr ''Any'')]"
      "[(''Label'', JStr ''Any''), (''Balance (SOL)'', range_dict (1, 5))]"] p m e o
  have "(1::real) \<le> 5 \<and>
        ranges_ordered [(''Label'', JStr ''Any''), (''Balance (SOL)'', range_dict (1, 5))]"
    by blast
  with p p2 p3 p4 p5 m e o show ?thesis by blast
qed

text \<open>
  C2, as the code has it. Every command handed to the order venue by a limit-order flow is
  \<^verbatim>\<open>/limit token=<address> amount=<number> slippage=<number> trigger=<number> expiry=<E>\<close>,
  sent to \<^verbatim>\<open>solana_trojanbot\<close>, where \<open>E\<close> is the float of minutes held by the conversation,
  truncated to an integer; the expiry held by the conversation is the user's duration in
  minutes, as \<^verbatim>\<open>_parse_duration_to_minutes\<close> computed it in binary64 at the expiry step;
  and a flow of five valid inputs sends exactly one such command.
\<close>

theorem limit_command_expiry_minutes:
  "(SendMessage target cmd \<in> set (snd (limit_input items sender st text)) \<longrightarrow>
      target = ''solana_trojanbot'' \<and>
      (\<exists>m v. d_expiry (cs_data st) = Some (Finite m) \<and>
         parse_number (Some (strip text)) = Some v \<and>
         cmd = [Lit ''/limit token='', str_piece (d_token (cs_data st)),
                Lit '' amount='', float_piece (d_amount (cs_data st)),
                Lit '' slippage='', float_piece (d_slippage (cs_data st)),
                Lit '' trigger='', FloatStr v,
                Lit '' expiry='', Lit (show_int (trunc m))])) \<and>
   (limit_input items sender st text = (Some st', acts) \<and>
    d_expiry (cs_data st') \<noteq> d_expiry (cs_data st) \<longrightarrow>
      cs_step st = StepExpiry \<and>
      parse_duration_to_minutes (Some (strip text)) = Inr (d_expiry (cs_data st'))) \<and>
   (\<not> slash_command tok \<and> \<not> slash_command ta \<and> \<not> slash_command te \<and>
    \<not> slash_command ts \<and> \<not> slash_command tg \<and>
    parse_number (Some (strip ta)) = Some a \<and>
    parse_duration_to_minutes (Some (strip te)) = Inr (Some (Finite minutes)) \<and>
    parse_number (Some (strip ts)) = Some s \<and>
    parse_number (Some (strip tg)) = Some g \<longrightarrow>
      venue_commands (limit_flow items sender start_ad_hoc [tok, ta, te, ts, tg]) =
        [[Lit ''/limit token='', Lit (strip tok),
          Lit '' amount='', FloatStr a,
          Lit '' slippage='', FloatStr s,
          Lit '' trigger='', FloatStr g,
          Lit '' expiry='', Lit (show_int (trunc minutes))]])"
proof -
  have 1: "target = ''solana_trojanbot'' \<and>
      (\<exists>m v. d_expiry (cs_data st) = Some (Finite m) \<and>
         parse_number (Some (strip text)) = Some v \<and>
         cmd = [Lit ''/limit token='', str_piece (d_token (cs_data st)),
                Lit '' amount='', float_piece (d_amount (cs_data st)),
                Lit '' slippage='', float_piece (d_slippage (cs_data st)),
                Lit '' trigger='', FloatStr v,
                Lit '' expiry='', Lit (show_int (trunc m))])"
    if "SendMessage target cmd \<in> set (snd (limit_input items sender st text))"
    using limit_input_sends [OF that]
    by (auto simp: limit_command_def float_piece_def)
  have 2: "cs_step st = StepExpiry \<and>
      parse_duration_to_minutes (Some (strip text)) = Inr (d_expiry (cs_data st'))"
    if "limit_input items sender st text = (Some st', acts)"
      and "d_expiry (cs_data st') \<noteq> d_expiry (cs_data st)"
    using limit_input_expiry [OF that] .
  have 3: "venue_commands (limit_flow items sender start_ad_hoc [tok, ta, te, ts, tg]) =
        [[Lit ''/limit token='', Lit (strip tok),
          Lit '' amount='', FloatStr a,
          Lit '' slippage='', FloatStr s,
          Lit '' trigger='', FloatStr g,
          Lit '' expiry='', Lit (show_int (trunc minutes))]]"
    if "\<not> slash_command tok" "\<not> slash_command ta" "\<not> slash_command te"
      "\<not> slash_command ts" "\<not> slash_command tg"
      "parse_number (Some (strip ta)) = Some a"
      "parse_duration_to_minutes (Some (strip te)) = Inr (Some (Finite minutes))"
      "parse_number (Some (strip ts)) = Some s"
      "parse_number (Some (strip tg)) = Some g"
    using ad_hoc_flow_commands [OF that, of items sender]
    by (simp add: limit_command_def float_piece_def str_piece_def)
  from 1 2 3 show ?thesis by blast
qed

text \<open>
  Two flows. The duration \<^verbatim>\<open>1h30m\<close> is 90 minutes. The duration \<^verbatim>\<open>4.1h\<close> is the float
  nearest to 4.1 times 60, rounded again: that float is below 246, and the command has
  \<^verbatim>\<open>expiry=245\<close>.
\<close>

theorem limit_command_expiry_minutes_witness:
  "venue_commands (limit_flow [] (Some 7) start_ad_hoc
     [''So11111111111111111111111111111111111111112'', ''1.5'', ''1h30m'', ''2'', ''0.25'']) =
   [[Lit ''/limit token='', Lit ''So11111111111111111111111111111111111111112'',
     Lit '' amount='', FloatStr 1.5,
     Lit '' slippage='', FloatStr 2,
     Lit '' trigger='', FloatStr 0.25,
     Lit '' expiry='', Lit ''90'']] \<and>
   venue_commands (limit_flow [] (Some 7) start_ad_hoc
     [''So11111111111111111111111111111111111111112'', ''1.5'', ''4.1h'', ''2'', ''0.25'']) =
   [[Lit ''/limit token='', Lit ''So11111111111111111111111111111111111111112'',
     Lit '' amount='', FloatStr 1.5,
     Lit '' slippage='', FloatStr 2,
     Lit '' trigger='', FloatStr 0.25,
     Lit '' expiry='', Lit ''245'']]"
proof -
  let ?tok = "''So11111111111111111111111111111111111111112''"
  let ?m = "8655355533852671 / 35184372088832 :: real"
  have n: "\<not> slash_command ?tok \<and> \<not> slash_command ''1.5'' \<and> \<not> slash_command ''1h30m'' \<and>
           \<not> slash_command ''4.1h'' \<and> \<not> slash_command ''2'' \<and> \<not> slash_command ''0.25''"
    by code_simp
  have st: "strip ?tok = ?tok" by code_simp
  have a: "parse_number (Some (strip ''1.5'')) = Some 1.5" by code_simp
  have e: "parse_duration_to_minutes (Some (strip ''1h30m'')) = Inr (Some (Finite 90))"
    by code_simp
  have e': "parse_duration_to_minutes (Some (strip ''4.1h'')) = Inr (Some (Finite ?m))"
    by code_simp
  have s: "parse_number (Some (strip ''2'')) = Some 2" by code_simp
  have g: "parse_number (Some (strip ''0.25'')) = Some 0.25" by code_simp
  have t: "show_int (trunc 90) = ''90''" by code_simp
  have t': "show_int (trunc ?m) = ''245''" by code_simp
  from n a e s g
    limit_command_expiry_minutes [of _ _ "[]" "Some 7" start_ad_hoc "[]" _ _ ?tok "''1.5''"
      "''1h30m''" "''2''" "''0.25''" "1.5" 90 2 "0.25"]
  have 1: "venue_commands (limit_flow [] (Some 7) start_ad_hoc
          [?tok, ''1.5'', ''1h30m'', ''2'', ''0.25'']) =
        [[Lit ''/limit token='', Lit (strip ?tok),
          Lit '' amount='', FloatStr 1.5,
          Lit '' slippage='', FloatStr 2,
          Lit '' trigger='', FloatStr 0.25,
          Lit '' expiry='', Lit (show_int (trunc 90))]]"
    by blast
  from n a e' s g
    limit_command_expiry_minutes [of _ _ "[]" "Some 7" start_ad_hoc "[]" _ _ ?tok "''1.5''"
      "''4.1h''" "''2''" "''0.25''" "1.5" ?m 2 "0.25"]
  have 2: "venue_commands (limit_flow [] (Some 7) start_ad_hoc
          [?tok, ''1.5'', ''4.1h'', ''2'', ''0.25'']) =
        [[Lit ''/limit token='', Lit (strip ?tok),
          Lit '' amount='', FloatStr 1.5,
          Lit '' slippage='', FloatStr 2,
          Lit '' trigger='', FloatStr 0.25,
          Lit '' expiry='', Lit (show_int (trunc ?m))]]"
    by blast
  from 1 2 show ?thesis by (simp only: st t t')
qed

text \<open>
  C2 as stated fails: the expiry of the command is not the duration in seconds. Entering
  \<^verbatim>\<open>30m\<close> yields \<^verbatim>\<open>expiry=30\<close>, not \<^verbatim>\<open>expiry=1800\<close>.
\<close>

theorem limit_command_expiry_not_seconds:
  "venue_commands (limit_flow [] (Some 7) start_ad_hoc
     [''So11111111111111111111111111111111111111112'', ''1'', ''30m'', ''2'', ''0.5'']) =
   [[Lit ''/limit token='', Lit ''So11111111111111111111111111111111111111112'',
     Lit '' amount='', FloatStr 1,
     Lit '' slippage='', FloatStr 2,
     Lit '' trigger='', FloatStr 0.5,
     Lit '' expiry='', Lit ''30'']] \<and>
   Lit ''30'' \<noteq> Lit ''1800''"
  by code_simp

text \<open>
  C5. A strategy matches a message iff each filter that is present in it (age range,
  first-buy range, balance range, transaction-count range, label) passes on its own; and
  evaluating the five checks in any other order gives the same verdict. The first part is
  stated for the filters \<open>f\<close> that the checks read (after the aliasing of the legacy keys),
  the last part carries it to a strategy of the message's group that is enabled.
\<close>

theorem strategy_matches_iff_present_filters_pass:
  "(check_filters f parsed age = Passed \<longleftrightarrow>
      (range_present (get_or f ''Token Age (minutes)'' JNull) \<longrightarrow>
         token_age_passes f age = Inr True) \<and>
      (range_present (get_or f ''First Buy (%)'' JNull) \<longrightarrow>
         range_filter_passes (get_or f ''First Buy (%)'' JNull) (first_buy_pct parsed)) \<and>
      (range_present (get_or f ''Balance (SOL)'' JNull) \<longrightarrow>
         range_filter_passes (get_or f ''Balance (SOL)'' JNull) (balance_sol parsed)) \<and>
      (range_present (get_or f ''Transactions (count)'' JNull) \<longrightarrow>
         range_filter_passes (get_or f ''Transactions (count)'' JNull)
           (map_option real_of_int (tx_count parsed))) \<and>
      (label_present (get_or f ''Label'' JNull) \<longrightarrow>
         label_filter_passes (get_or f ''Label'' JNull) (label parsed))) \<and>
   (mset cs = mset (filter_checks f parsed age) \<longrightarrow>
      verdict (run_checks cs) = (check_filters f parsed age = Passed)) \<and>
   (evaluate_strategy (JObj strat) gui_group parsed age = Passed \<longleftrightarrow>
      truthy (get_or strat ''enabled'' (JBool True)) \<and>
      get_or strat ''group'' JNull = JStr gui_group \<and>
      (\<exists>g. get_or strat ''filters'' (JObj []) = JObj g \<and>
           check_filters (normalize_legacy g) parsed age = Passed))"
proof -
  have "verdict (run_checks cs) = (check_filters f parsed age = Passed)"
    if "mset cs = mset (filter_checks f parsed age)"
    using run_checks_permute [OF that] check_filters_verdict by simp
  then show ?thesis
    using check_filters_present [of f parsed age]
      evaluate_strategy_passed [of strat gui_group parsed age]
    by blast
qed

theorem strategy_matches_iff_present_filters_pass_witness:
  "evaluate_strategy
     (JObj [(''group'', JStr ''@G''),
            (''filters'', JObj [(''Balance (SOL)'', JObj [(''from'', JInt 1), (''to'', JInt 5)])]),
            (''enabled'', JBool True)])
     ''@G'' \<lparr>first_buy_pct = None, balance_sol = Some 3.2, tx_count = None, label = None\<rparr> 7
     = Passed \<and>
   verdict (run_checks (rev (filter_checks
     [(''Balance (SOL)'', JObj [(''from'', JInt 1), (''to'', JInt 5)])]
     \<lparr>first_buy_pct = None, balance_sol = Some 3.2, tx_count = None, label = None\<rparr> 7))) \<and>
   evaluate_strategy
     (JObj [(''group'', JStr ''@G''),
            (''filters'', JObj [(''Balance (SOL)'', JObj [(''from'', JInt 1), (''to'', JInt 5)])]),
            (''enabled'', JBool True)])
     ''@G'' \<lparr>first_buy_pct = None, balance_sol = Some 0.4, tx_count = None, label = None\<rparr> 7
     \<noteq> Passed"
proof -
  let ?f = "[(''Balance (SOL)'', JObj [(''from'', JInt 1), (''to'', JInt 5)])]"
  let ?s = "[(''group'', JStr ''@G''), (''filters'', JObj ?f), (''enabled'', JBool True)]"
  let ?p = "\<lparr>first_buy_pct = None, balance_sol = Some (3.2::real), tx_count = None,
             label = None\<rparr>"
  let ?q = "\<lparr>first_buy_pct = None, balance_sol = Some (0.4::real), tx_count = None,
             label = None\<rparr>"
  have n: "normalize_legacy ?f = ?f"
    by (simp add: normalize_legacy_def alias_key_def has_key_def)
  have e: "truthy (get_or ?s ''enabled'' (JBool True)) \<and> get_or ?s ''group'' JNull = JStr ''@G'' \<and>
           get_or ?s ''filters'' (JObj []) = JObj ?f"
    by (simp add: get_or_def)
  have a: "\<not> range_present (get_or ?f ''Token Age (minutes)'' JNull) \<and>
           \<not> range_present (get_or ?f ''First Buy (%)'' JNull) \<and>
           \<not> range_present (get_or ?f ''Transactions (count)'' JNull) \<and>
           \<not> label_present (get_or ?f ''Label'' JNull)"
    by (simp add: get_or_def label_present_def)
  have b: "range_filter_passes (get_or ?f ''Balance (SOL)'' JNull) (balance_sol ?p)"
    by (simp add: get_or_def range_filter_passes_def in_range_def)
  have c: "\<not> range_filter_passes (get_or ?f ''Balance (SOL)'' JNull) (balance_sol ?q)"
    by (simp add: get_or_def range_filter_passes_def in_range_def)
  have r: "range_present (get_or ?f ''Balance (SOL)'' JNull)"
    by (simp add: get_or_def)
  have m: "mset (rev (filter_checks ?f ?p 7)) = mset (filter_checks ?f ?p 7)"
    by simp
  note t = strategy_matches_iff_present_filters_pass
  from a b t [of ?f ?p 7 "rev (filter_checks ?f ?p 7)" ?s "''@G''"]
  have 1: "check_filters ?f ?p 7 = Passed" by blast
  from 1 m t [of ?f ?p 7 "rev (filter_checks ?f ?p 7)" ?s "''@G''"]
  have 2: "verdict (run_checks (rev (filter_checks ?f ?p 7)))" by blast
  from 1 n e t [of ?f ?p 7 "rev (filter_checks ?f ?p 7)" ?s "''@G''"]
  have 3: "evaluate_strategy (JObj ?s) ''@G'' ?p 7 = Passed" by auto
  from r c t [of ?f ?q 7 "[]" ?s "''@G''"]
  have 4: "check_filters ?f ?q 7 \<noteq> Passed" by blast
  from 4 n e t [of ?f ?q 7 "[]" ?s "''@G''"]
  have 5: "evaluate_strategy (JObj ?s) ''@G'' ?q 7 \<noteq> Passed" by auto
  from 2 3 5 show ?thesis by blast
qed

text \<open>
  C3. The owner 7 edits the stored strategy \<open>unbounded_strategy\<close>, whose group is not the
  order venue, and presses \<^verbatim>\<open>save\<close>. None of the three filters of the draft is
  meaningfully set, a range counting only with both bounds: \<open>meaningful_options\<close> is 0.
  \<open>count_filled_filters\<close> is 3, because a range with a null bound falls through to the
  last branch, where every value but \<^verbatim>\<open>None\<close>, the empty text and \<^verbatim>\<open>Any\<close> counts. So the
  save is not refused: the answer is \<^verbatim>\<open>Updated\<close> and the stored strategy has changed.
\<close>

theorem save_accepts_ranges_without_bounds:
  "meaningful_options unbounded_filters = 0 \<and>
   count_filled_filters unbounded_filters = 3 \<and>
   get_or (b_data unbounded_draft) ''group'' JNull = JStr ''@SolanaNewPumpfun'' \<and>
   get_or (b_data unbounded_draft) ''filters'' (JObj []) = unbounded_filters \<and>
   save_pressed True 1700000000 7 [unbounded_strategy] (Some unbounded_draft) =
     \<lparr>r_store =
        [JObj [(''id'', JInt 1), (''name'', JStr ''New''), (''group'', JStr ''@SolanaNewPumpfun''),
               (''enabled'', JBool True), (''filters'', unbounded_filters),
               (''owner_id'', JInt 7), (''action'', JObj []), (''trojan'', JObj [])]],
      r_state_kept = False, r_reply = saved_ok ''Updated''\<rparr> \<and>
   r_store (save_pressed True 1700000000 7 [unbounded_strategy] (Some unbounded_draft)) \<noteq>
     [unbounded_strategy]"
proof -
  have 1: "meaningful_options unbounded_filters = 0"
    by (simp add: unbounded_filters_def meaningfully_set_def)
  have 2: "count_filled_filters unbounded_filters = 3"
    by (simp add: unbounded_filters_def item_counts_def range_filled_def)
  have 3: "get_or (b_data unbounded_draft) ''group'' JNull = JStr ''@SolanaNewPumpfun'' \<and>
           get_or (b_data unbounded_draft) ''filters'' (JObj []) = unbounded_filters"
    by (simp add: unbounded_draft_def get_or_def)
  have 4: "r_store (save_pressed True 1700000000 7 [unbounded_strategy] (Some unbounded_draft)) \<noteq>
           [unbounded_strategy]"
    unfolding unbounded_draft_saved by (simp add: unbounded_strategy_def)
  from 1 2 3 4 unbounded_draft_saved show ?thesis by simp
qed




text \<open>
  C4, as the code has it. On the empty cache the first call of \<open>is_duplicate\<close> answers
  false and stores the key of the text with the time of the call. A following call with a
  text of the same key answers true and leaves the cache as it is, so the stored time is
  not refreshed: at the same time, and at any time at which the age of the entry (the
  float \<^verbatim>\<open>now - ts\<close>) is at most the TTL. Once the age of the entry is above the TTL, a call
  with that key answers false again and stores the new time. Two texts have the same key
  when the same address is extracted from both, or when no address is extracted from
  either and their normalized texts are equal.
\<close>

theorem dedup_round_trip:
  "is_duplicate now1 t1 startup_cache = (False, startup_cache(dedupe_key_for t1 \<mapsto> now1)) \<and>
   (dedupe_key_for t2 = dedupe_key_for t1 \<longrightarrow>
      is_duplicate now1 t2 (snd (is_duplicate now1 t1 startup_cache)) =
        (True, startup_cache(dedupe_key_for t1 \<mapsto> now1))) \<and>
   (dedupe_key_for t2 = dedupe_key_for t1 \<and>
    f64_le (entry_age now2 now1) (Finite DEDUP_TTL_SECONDS) \<longrightarrow>
      is_duplicate now2 t2 (snd (is_duplicate now1 t1 startup_cache)) =
        (True, startup_cache(dedupe_key_for t1 \<mapsto> now1))) \<and>
   (dedupe_key_for t2 = dedupe_key_for t1 \<and>
    f64_less (Finite DEDUP_TTL_SECONDS) (entry_age now3 now1) \<longrightarrow>
      is_duplicate now3 t2 (snd (is_duplicate now1 t1 startup_cache)) =
        (False, startup_cache(dedupe_key_for t1 \<mapsto> now3))) \<and>
   (extract_token_address t1 = Some a \<and> extract_token_address t2 = Some a \<longrightarrow>
      dedupe_key_for t2 = dedupe_key_for t1) \<and>
   (extract_token_address t1 = None \<and> extract_token_address t2 = None \<and>
    normalize_text t2 = normalize_text t1 \<longrightarrow>
      dedupe_key_for t2 = dedupe_key_for t1)"
proof -
  have z: "f64_le (entry_age now1 now1) (Finite DEDUP_TTL_SECONDS)"
    by (simp add: entry_age_zero DEDUP_TTL_SECONDS_def)
  have 1: "is_duplicate now t2 (snd (is_duplicate now1 t1 startup_cache)) =
           (True, startup_cache(dedupe_key_for t1 \<mapsto> now1))"
    if "dedupe_key_for t2 = dedupe_key_for t1"
      and "f64_le (entry_age now now1) (Finite DEDUP_TTL_SECONDS)" for now
    using is_duplicate_live [OF that(2), of t2] that(1) by (simp add: is_duplicate_first)
  have 2: "is_duplicate now3 t2 (snd (is_duplicate now1 t1 startup_cache)) =
           (False, startup_cache(dedupe_key_for t1 \<mapsto> now3))"
    if "dedupe_key_for t2 = dedupe_key_for t1"
      and "f64_less (Finite DEDUP_TTL_SECONDS) (entry_age now3 now1)"
    using is_duplicate_expired [OF that(2), of t2] that(1) by (simp add: is_duplicate_first)
  from 1 [OF _ z] 1 2 is_duplicate_first [of now1 t1]
    same_address_same_key [of t1 a t2] same_text_same_key [of t1 t2]
  show ?thesis by blast
qed

text \<open>
  The round trip of the text \<^verbatim>\<open>token X\<close>, first seen at the time 1000: the same text in
  other letters and spaces is a duplicate 21600 seconds later and is none one second
  after that; and a text that holds the address of the first one is a duplicate.
\<close>

theorem dedup_round_trip_witness:
  "is_duplicate 1000 ''token X'' startup_cache =
     (False, startup_cache(dedupe_key_for ''token X'' \<mapsto> 1000)) \<and>
   is_duplicate 22600 ''  TOKEN   x '' (snd (is_duplicate 1000 ''token X'' startup_cache)) =
     (True, startup_cache(dedupe_key_for ''token X'' \<mapsto> 1000)) \<and>
   is_duplicate 22601 ''  TOKEN   x '' (snd (is_duplicate 1000 ''token X'' startup_cache)) =
     (False, startup_cache(dedupe_key_for ''token X'' \<mapsto> 22601)) \<and>
   is_duplicate 1000 (''buy '' @ capital_address)
       (snd (is_duplicate 1000 capital_address startup_cache)) =
     (True, startup_cache(dedupe_key_for capital_address \<mapsto> 1000))"
proof -
  have e: "extract_token_address ''token X'' = None \<and>
           extract_token_address ''  TOKEN   x '' = None \<and>
           normalize_text ''  TOKEN   x '' = normalize_text ''token X''"
    by code_simp
  have a: "extract_token_address capital_address = Some capital_address \<and>
           extract_token_address (''buy '' @ capital_address) = Some capital_address"
    by code_simp
  have l: "f64_le (entry_age 22600 1000) (Finite DEDUP_TTL_SECONDS)"
    by code_simp
  have x: "f64_less (Finite DEDUP_TTL_SECONDS) (entry_age 22601 1000)"
    by code_simp
  note t = dedup_round_trip [of 1000 "''token X''" "''  TOKEN   x ''" 22600 22601 "[]"]
  note u = dedup_round_trip [of 1000 capital_address "''buy '' @ capital_address" 1000 1000
      capital_address]
  from e t have k: "dedupe_key_for ''  TOKEN   x '' = dedupe_key_for ''token X''"
    by blast
  from a u have k': "dedupe_key_for (''buy '' @ capital_address) = dedupe_key_for capital_address"
    by blast
  from k k' l x t u show ?thesis by blast
qed

text \<open>
  C4 as stated fails: a following call with the same normalized text need not answer
  true. The two texts of 32 letters have the same normalized text, but an address is
  extracted from each, the two addresses differ, and the second call, at the same time,
  reports no duplicate.
\<close>

theorem same_normalized_text_not_duplicate:
  "normalize_text small_address = normalize_text capital_address \<and>
   fst (is_duplicate 1000 capital_address startup_cache) = False \<and>
   fst (is_duplicate 1000 small_address
          (snd (is_duplicate 1000 capital_address startup_cache))) = False"
proof -
  have n: "normalize_text small_address = normalize_text capital_address"
    by code_simp
  have k: "dedupe_key_for capital_address = ''token:'' @ capital_address \<and>
           dedupe_key_for small_address = ''token:'' @ small_address"
    by code_simp
  have d: "''token:'' @ small_address \<noteq> ''token:'' @ capital_address"
    by (simp add: small_address_def capital_address_def)
  have z: "\<not> f64_less (Finite DEDUP_TTL_SECONDS) (entry_age 1000 1000)"
    by (simp add: entry_age_zero DEDUP_TTL_SECONDS_def)
  have "fst (is_duplicate 1000 small_address
               (startup_cache(''token:'' @ capital_address \<mapsto> 1000))) = False"
    using d z by (simp add: is_duplicate_def evict_def Let_def k startup_cache_def)
  with n k show ?thesis
    by (simp add: is_duplicate_first)
qed

text \<open>
  C1, as the code has it. While the pause flag is set, the handling of an inbound message
  has no effect besides the cache: no call of \<^verbatim>\<open>parse_message_fields\<close>, no reading of the
  strategies, no dispatch, and the flag stays set. The cache, however, is updated before
  the flag is looked at: for a message of a monitored group it becomes what
  \<open>is_duplicate\<close> leaves (expired entries removed, the key of the message stored), and
  only for any other message it stays as it was.
\<close>

theorem paused_handler_only_dedups:
  "PROCESSING_PAUSED st \<longrightarrow>
     effects (handler persisted event st) = effects st \<and>
     PROCESSING_PAUSED (handler persisted event st) \<and>
     (chat_username event = Some g \<and> g \<in> set monitored_groups \<longrightarrow>
        processed_cache (handler persisted event st) =
          snd (is_duplicate (clock_dedup event) (message_text event) (processed_cache st)) \<and>
        processed_cache (handler persisted event st) (dedupe_key_for (message_text event)) \<noteq>
          None) \<and>
     (chat_username event = None \<or>
      (chat_username event = Some g \<and> g \<notin> set monitored_groups) \<longrightarrow>
        processed_cache (handler persisted event st) = processed_cache st)"
proof
  assume p: "PROCESSING_PAUSED st"
  show "effects (handler persisted event st) = effects st \<and>
     PROCESSING_PAUSED (handler persisted event st) \<and>
     (chat_username event = Some g \<and> g \<in> set monitored_groups \<longrightarrow>
        processed_cache (handler persisted event st) =
          snd (is_duplicate (clock_dedup event) (message_text event) (processed_cache st)) \<and>
        processed_cache (handler persisted event st) (dedupe_key_for (message_text event)) \<noteq>
          None) \<and>
     (chat_username event = None \<or>
      (chat_username event = Some g \<and> g \<notin> set monitored_groups) \<longrightarrow>
        processed_cache (handler persisted event st) = processed_cache st)"
    unfolding handler_paused [OF p]
    using p is_duplicate_stores [of "clock_dedup event" "message_text event" "processed_cache st"]
    by (auto split: option.splits)
qed

text \<open>
  A listing arrives in \<^verbatim>\<open>SolanaNewPumpfun\<close>, and the stored strategy has no filter. The
  process that is not paused parses the message, reads the strategies and dispatches the
  first one. The paused process does none of it, and its cache holds the key of the
  message afterwards.
\<close>

theorem paused_handler_only_dedups_witness:
  "effects (handler [open_strategy] listing_message running_at_startup) =
     [ParseMessageFields ''token X'', LoadStrategies, Dispatch 1] \<and>
   effects (handler [open_strategy] listing_message paused_at_startup) = [] \<and>
   PROCESSING_PAUSED (handler [open_strategy] listing_message paused_at_startup) \<and>
   processed_cache (handler [open_strategy] listing_message paused_at_startup) =
     startup_cache(dedupe_key_for ''token X'' \<mapsto> 30000)"
proof -
  have p: "PROCESSING_PAUSED paused_at_startup"
    by (simp add: paused_at_startup_def)
  have m: "chat_username listing_message = Some ''SolanaNewPumpfun'' \<and>
           ''SolanaNewPumpfun'' \<in> set monitored_groups"
    by (simp add: listing_message_def monitored_groups_def)
  have s: "effects paused_at_startup = [] \<and> processed_cache paused_at_startup = startup_cache \<and>
           clock_dedup listing_message = 30000 \<and> message_text listing_message = ''token X''"
    by (simp add: paused_at_startup_def listing_message_def)
  have r: "effects (handler [open_strategy] listing_message running_at_startup) =
           [ParseMessageFields ''token X'', LoadStrategies, Dispatch 1]"
    by (simp add: handler_def Let_def listing_message_def running_at_startup_def
        monitored_groups_def is_duplicate_first process_token_message_def open_strategy_def
        get_or_def normalize_legacy_def alias_key_def has_key_def check_filters_def
        token_age_passes_def range_filter_passes_def label_filter_passes_def)
  from p m
    paused_handler_only_dedups [of paused_at_startup "[open_strategy]" listing_message
      "''SolanaNewPumpfun''"]
  have "effects (handler [open_strategy] listing_message paused_at_startup) =
          effects paused_at_startup \<and>
        PROCESSING_PAUSED (handler [open_strategy] listing_message paused_at_startup) \<and>
        processed_cache (handler [open_strategy] listing_message paused_at_startup) =
          snd (is_duplicate (clock_dedup listing_message) (message_text listing_message)
                 (processed_cache paused_at_startup))"
    by blast
  then show ?thesis
    by (simp add: r s is_duplicate_first)
qed

text \<open>
  C1 as stated fails: the cache does not stay as it was. The paused process with the
  empty cache stores the key of the message; and the paused process whose cache holds an
  entry of the time 0 loses that entry to the eviction when the message is handled at the
  time 30000.
\<close>

theorem paused_handler_changes_cache:
  "PROCESSING_PAUSED paused_at_startup \<and>
   processed_cache paused_at_startup (dedupe_key_for ''token X'') = None \<and>
   processed_cache (handler [] listing_message paused_at_startup) (dedupe_key_for ''token X'') =
     Some 30000 \<and>
   PROCESSING_PAUSED paused_with_old_entry \<and>
   processed_cache paused_with_old_entry ''token:old'' = Some 0 \<and>
   processed_cache (handler [] listing_message paused_with_old_entry) ''token:old'' = None"
proof -
  have e: "extract_token_address ''token X'' = None"
    by code_simp
  have k: "dedupe_key_for ''token X'' \<noteq> ''token:old''"
    by (simp add: dedupe_key_for_def e)
  have x: "f64_less (Finite DEDUP_TTL_SECONDS) (entry_age 30000 0)"
    by code_simp
  have m: "''SolanaNewPumpfun'' \<in> set monitored_groups"
    by (simp add: monitored_groups_def)
  have 1: "processed_cache (handler [] listing_message paused_at_startup) =
           startup_cache(dedupe_key_for ''token X'' \<mapsto> 30000)"
    using m by (simp add: handler_paused paused_at_startup_def listing_message_def
        is_duplicate_first)
  have 2: "processed_cache (handler [] listing_message paused_with_old_entry) ''token:old'' = None"
    using m x k
    by (simp add: handler_paused paused_with_old_entry_def listing_message_def
        is_duplicate_def evict_def Let_def startup_cache_def split: option.splits)
  show ?thesis
    using 2 by (simp add: 1) (simp add: paused_at_startup_def paused_with_old_entry_def
        startup_cache_def)
qed

end
